theory Spec2Isabelle
  imports Complex_Main
begin

section \<open>Data model of the detection engine\<close>

text \<open>
  The development follows the class \<open>DetectionEngine\<close> (version 2.0, with drawing areas) and
  its predecessor (version 1.0). JavaScript numbers are modelled by \<^typ>\<open>real\<close>, counts and
  array indices by \<^typ>\<open>nat\<close>, pixel coordinates that may leave the image by \<^typ>\<open>int\<close>.
  \<open>null\<close> and \<open>undefined\<close> are \<^const>\<open>None\<close>. An exception is the left summand of a sum
  type. \<open>Date.now()\<close> and \<open>Math.random()\<close> are explicit arguments.
\<close>

record Rectangle =
  rect_x :: real
  rect_y :: real
  rect_width :: real
  rect_height :: real

text \<open>
  The user-visible messages of the engine are fixed Thai sentences; each is one constructor.
  The message of a drift alert is \<open>issues.join(', ')\<close>, kept as the list of its parts, each
  carrying the rounded offset that the template string prints.
\<close>

datatype issue = PositionShifted int | Tilted int

datatype message =
    NoReferenceImage
  | NoReferenceData
  | BoxInCorrectPosition
  | BoxNotFoundAtPosition
  | CannotExtractArea
  | NoBoxFound
  | AnalysisError
  | Issues "issue list"

record Details =
  positionOffset :: int
  rotationOffset :: int
  positionOk :: bool
  rotationOk :: bool

record 'b DetectionResult =
  hasAlert :: bool
  message :: message
  box :: "'b option"
  confidence :: real
  details :: "Details option"

record 'b HistoryEntry = "'b DetectionResult" +
  timestamp :: nat

record Statistics =
  total :: nat
  alerts :: nat
  alertRate :: real
  averageConfidence :: real

record ImageData =
  img_width :: nat
  img_height :: nat
  img_data :: "nat list"

record FrameData =
  fd_imageData :: "ImageData option"
  fd_width :: nat
  fd_height :: nat
  fd_timestamp :: real

datatype mode = Drawing | Legacy

text \<open>
  The reference features are built by \<open>extractFeaturesFromAreas\<close> (drawing mode) or by
  \<open>extractFeatures\<close> (legacy mode); a property that one of them does not set is \<^const>\<open>None\<close>.
\<close>

record ReferenceFeatures =
  rf_boxRect :: "Rectangle option"
  rf_keyPointRect :: "Rectangle option"
  rf_width :: "nat option"
  rf_height :: "nat option"
  rf_centerX :: real
  rf_centerY :: real
  rf_rotation :: real
  rf_area :: real
  rf_timestamp :: nat
  rf_mode :: mode
  rf_imageWidth :: "nat option"
  rf_imageHeight :: "nat option"

record Settings =
  rotationSensitivity :: real
  positionSensitivity :: real
  detectionThreshold :: real
  minContourArea :: real
  maxContourArea :: real

text \<open>The argument of \<open>updateSettings\<close>: an object holding some of the settings.\<close>

record PartialSettings =
  new_rotationSensitivity :: "real option"
  new_positionSensitivity :: "real option"
  new_detectionThreshold :: "real option"
  new_minContourArea :: "real option"
  new_maxContourArea :: "real option"

record Config =
  gaussianBlur :: nat
  cannyLower :: real
  cannyUpper :: real
  morphKernel :: nat
  approxEpsilon :: real

type_synonym contour = "(int \<times> int) list"

text \<open>The result of \<open>analyzeContours\<close>; its first branch sets neither bounding box nor area.\<close>

record BoxFeatures =
  hasBox :: bool
  bf_rotation :: real
  position_x :: real
  position_y :: real
  bf_boundingBox :: "Rectangle option"
  bf_area :: "real option"
  bf_confidence :: real

record Analysis =
  an_edges :: "ImageData option"
  an_contours :: nat
  an_features :: "BoxFeatures option"
  an_timestamp :: nat

text \<open>A box of the legacy detection, built by \<open>contoursToBoxes\<close>.\<close>

record Box =
  box_x :: real
  box_y :: real
  box_width :: real
  box_height :: real
  box_centerX :: real
  box_centerY :: real
  box_rotation :: real
  box_area :: real
  box_contour :: contour

datatype error = TypeError | IndexSizeError | InvalidStateError

text \<open>
  The state of a \<open>DetectionEngine\<close>. Version 1.0 has no \<open>boxRect\<close> and no
  \<open>keyPointRect\<close>; its methods neither read nor write these two fields.
\<close>

record 'b Engine =
  referenceImage :: "ImageData option"
  referenceFeatures :: "ReferenceFeatures option"
  boxRect :: "Rectangle option"
  keyPointRect :: "Rectangle option"
  settings :: Settings
  config :: Config
  isInitialized :: bool
  lastDetection :: "'b DetectionResult option"
  detectionHistory :: "'b HistoryEntry list"

text \<open>The engine that the constructor builds.\<close>

definition newEngine :: "'b Engine" where
  "newEngine =
     \<lparr>referenceImage = None, referenceFeatures = None, boxRect = None, keyPointRect = None,
      settings = \<lparr>rotationSensitivity = 5, positionSensitivity = 20, detectionThreshold = 50,
                  minContourArea = 1000, maxContourArea = 500000\<rparr>,
      config = \<lparr>gaussianBlur = 5, cannyLower = 50, cannyUpper = 150, morphKernel = 3,
                approxEpsilon = 2 / 100\<rparr>,
      isInitialized = False, lastDetection = None, detectionHistory = []\<rparr>"

text \<open>\<open>updateSettings\<close>: a shallow merge, the new value where the argument has one.\<close>

definition mergeSettings :: "Settings \<Rightarrow> PartialSettings \<Rightarrow> Settings" where
  "mergeSettings old new =
     \<lparr>rotationSensitivity = (case new_rotationSensitivity new of None \<Rightarrow> rotationSensitivity old | Some v \<Rightarrow> v),
      positionSensitivity = (case new_positionSensitivity new of None \<Rightarrow> positionSensitivity old | Some v \<Rightarrow> v),
      detectionThreshold = (case new_detectionThreshold new of None \<Rightarrow> detectionThreshold old | Some v \<Rightarrow> v),
      minContourArea = (case new_minContourArea new of None \<Rightarrow> minContourArea old | Some v \<Rightarrow> v),
      maxContourArea = (case new_maxContourArea new of None \<Rightarrow> maxContourArea old | Some v \<Rightarrow> v)\<rparr>"

definition updateSettings :: "PartialSettings \<Rightarrow> 'b Engine \<Rightarrow> 'b Engine" where
  "updateSettings newSettings st = st\<lparr>settings := mergeSettings (settings st) newSettings\<rparr>"

section \<open>Reference store\<close>

definition extractFeaturesFromAreas ::
  "nat \<Rightarrow> Rectangle option \<Rightarrow> Rectangle \<Rightarrow> ImageData option \<Rightarrow> ReferenceFeatures" where
  "extractFeaturesFromAreas now boxRect' keyPointRect' imageData =
     \<lparr>rf_boxRect = boxRect', rf_keyPointRect = Some keyPointRect',
      rf_width = None, rf_height = None,
      rf_centerX = rect_x keyPointRect' + rect_width keyPointRect' / 2,
      rf_centerY = rect_y keyPointRect' + rect_height keyPointRect' / 2,
      rf_rotation = 0,
      rf_area = rect_width keyPointRect' * rect_height keyPointRect',
      rf_timestamp = now, rf_mode = Drawing,
      rf_imageWidth = map_option img_width imageData,
      rf_imageHeight = map_option img_height imageData\<rparr>"

text \<open>
  \<open>setReferenceAreas\<close>: the three assignments come first; with \<open>keyPointRect\<close> null the
  feature extraction throws, the handler reports the error, and the assignments stay.
\<close>

definition setReferenceAreas ::
  "nat \<Rightarrow> Rectangle option \<Rightarrow> Rectangle option \<Rightarrow> ImageData option \<Rightarrow> 'b Engine \<Rightarrow> 'b Engine" where
  "setReferenceAreas now boxRect' keyPointRect' imageData st =
     (let st1 = st\<lparr>boxRect := boxRect', keyPointRect := keyPointRect', referenceImage := imageData\<rparr>
      in case keyPointRect' of
           None \<Rightarrow> st1
         | Some k \<Rightarrow> st1\<lparr>referenceFeatures := Some (extractFeaturesFromAreas now boxRect' k imageData),
                          isInitialized := True\<rparr>)"

definition extractFeatures :: "nat \<Rightarrow> ImageData \<Rightarrow> ReferenceFeatures" where
  "extractFeatures now imageData =
     \<lparr>rf_boxRect = None, rf_keyPointRect = None,
      rf_width = Some (img_width imageData), rf_height = Some (img_height imageData),
      rf_centerX = real (img_width imageData) / 2,
      rf_centerY = real (img_height imageData) / 2,
      rf_rotation = 0,
      rf_area = real (img_width imageData) * real (img_height imageData) * (25 / 100),
      rf_timestamp = now, rf_mode = Legacy,
      rf_imageWidth = None, rf_imageHeight = None\<rparr>"

definition setReferenceImage :: "nat \<Rightarrow> ImageData option \<Rightarrow> 'b Engine \<Rightarrow> 'b Engine" where
  "setReferenceImage now imageData st =
     (let st1 = st\<lparr>referenceImage := imageData\<rparr>
      in case imageData of
           None \<Rightarrow> st1
         | Some img \<Rightarrow> st1\<lparr>referenceFeatures := Some (extractFeatures now img),
                            isInitialized := True\<rparr>)"

definition clearReference :: "'b Engine \<Rightarrow> 'b Engine" where
  "clearReference st =
     st\<lparr>referenceImage := None, referenceFeatures := None, boxRect := None, keyPointRect := None,
        isInitialized := False, lastDetection := None, detectionHistory := []\<rparr>"

section \<open>Typed arrays and image data\<close>

text \<open>
  Storing a number in a \<open>Uint8ClampedArray\<close> clamps it to 0..255 and rounds it to the nearest
  integer, a half to the even neighbour.
\<close>

definition roundHalfEven :: "real \<Rightarrow> int" where
  "roundHalfEven v =
     (let f = \<lfloor>v\<rfloor>; d = v - of_int f
      in if d < 1 / 2 then f else if d > 1 / 2 then f + 1 else if even f then f else f + 1)"

definition toUint8Clamped :: "real \<Rightarrow> nat" where
  "toUint8Clamped v = (if v \<le> 0 then 0 else if v \<ge> 255 then 255 else nat (roundHalfEven v))"

text \<open>
  \<open>new ImageData(data, width, height)\<close> throws unless the array holds four bytes for each of
  the \<open>width * height\<close> pixels and there is at least one pixel.
\<close>

definition newImageData :: "nat list \<Rightarrow> nat \<Rightarrow> nat \<Rightarrow> error + ImageData" where
  "newImageData data width height =
     (if width = 0 \<or> height = 0 then Inl IndexSizeError
      else if length data = 0 \<or> length data mod 4 \<noteq> 0 then Inl InvalidStateError
      else if length data \<noteq> 4 * width * height then Inl IndexSizeError
      else Inr \<lparr>img_width = width, img_height = height, img_data = data\<rparr>)"

section \<open>Grayscale conversion\<close>

text \<open>
  The loop of \<open>convertToGrayscale\<close> over a copy of the bytes, four at a time. A last group
  of three bytes has its three colours and no alpha. In a last group of one or two bytes a
  missing colour is \<open>undefined\<close>, the sum is NaN, and the bytes that exist are set to 0.
\<close>

definition luma :: "nat \<Rightarrow> nat \<Rightarrow> nat \<Rightarrow> nat" where
  "luma r g b =
     toUint8Clamped (real r * (299 / 1000) + real g * (587 / 1000) + real b * (114 / 1000))"

fun grayscaleLoop :: "nat list \<Rightarrow> nat list" where
  "grayscaleLoop (r # g # b # a # rest) =
     (let gray = luma r g b in gray # gray # gray # a # grayscaleLoop rest)"
| "grayscaleLoop [r, g, b] = (let gray = luma r g b in [gray, gray, gray])"
| "grayscaleLoop [r, g] = [0, 0]"
| "grayscaleLoop [r] = [0]"
| "grayscaleLoop [] = []"

text \<open>
  The argument of \<open>convertToGrayscale\<close> may be \<open>undefined\<close>; reading its \<open>data\<close> then
  throws.
\<close>

definition convertToGrayscale :: "ImageData option \<Rightarrow> error + ImageData" where
  "convertToGrayscale imageData =
     (case imageData of
        None \<Rightarrow> Inl TypeError
      | Some img \<Rightarrow> newImageData (grayscaleLoop (img_data img)) (img_width img) (img_height img))"

section \<open>Gaussian blur\<close>

text \<open>
  \<open>createGaussianKernel(radius)\<close>: a square table of \<open>2 * radius + 1\<close> rows. For radius 0
  the source divides by zero and every weight is NaN, which the output array stores as 0;
  here the division by zero gives weight 0 and the stored value is 0 as well.
\<close>

definition createGaussianKernel :: "nat \<Rightarrow> real list list" where
  "createGaussianKernel radius =
     (let size = radius * 2 + 1;
          sigma = real radius / 3;
          sigma2 = sigma * sigma;
          norm = 1 / (2 * pi * sigma2)
      in map (\<lambda>y. map (\<lambda>x.
               let dx = int x - int radius;
                   dy = int y - int radius;
                   e = - real_of_int (dx * dx + dy * dy) / (2 * sigma2)
               in norm * exp e) [0..<size]) [0..<size])"

text \<open>
  The two inner loops of \<open>applyGaussianBlur\<close> at the pixel \<open>(x, y)\<close>: they run over the
  kernel row by row and accumulate \<open>sum\<close> and \<open>weightSum\<close> from the red channel of the input.
\<close>

definition kernelOrder :: "nat \<Rightarrow> (nat \<times> nat) list" where
  "kernelOrder kernelSize = concat (map (\<lambda>ky. map (\<lambda>kx. (kx, ky)) [0..<kernelSize]) [0..<kernelSize])"

definition kernelSums :: "nat list \<Rightarrow> nat \<Rightarrow> real list list \<Rightarrow> nat \<Rightarrow> nat \<Rightarrow> real \<times> real" where
  "kernelSums data width kern x y =
     (let kernelSize = length kern; half = kernelSize div 2
      in foldl (\<lambda>(sum, weightSum) (kx, ky).
                  let px = x + kx - half;
                      py = y + ky - half;
                      idx = (py * width + px) * 4;
                      weight = kern ! ky ! kx
                  in (sum + real (data ! idx) * weight, weightSum + weight))
           (0, 0) (kernelOrder kernelSize))"

definition blurValue :: "nat list \<Rightarrow> nat \<Rightarrow> real list list \<Rightarrow> nat \<Rightarrow> nat \<Rightarrow> nat" where
  "blurValue data width kern x y =
     (case kernelSums data width kern x y of (weighted, weightSum) \<Rightarrow> toUint8Clamped (weighted / weightSum))"

text \<open>
  The body of the two outer loops: four writes into \<open>output\<close>. A write beyond the end of a
  typed array is ignored, as a list update beyond the end is.
\<close>

definition blurStep :: "nat list \<Rightarrow> nat \<Rightarrow> real list list \<Rightarrow> nat list \<Rightarrow> nat \<times> nat \<Rightarrow> nat list" where
  "blurStep data width kern output p =
     (case p of (x, y) \<Rightarrow>
        let outputIdx = (y * width + x) * 4;
            value = blurValue data width kern x y
        in output[outputIdx := value, outputIdx + 1 := value, outputIdx + 2 := value,
                  outputIdx + 3 := data ! (outputIdx + 3)])"

text \<open>
  The outer loops run \<open>y\<close> from \<open>half\<close> below \<open>height - half\<close> and, for each \<open>y\<close>, \<open>x\<close> from
  \<open>half\<close> below \<open>width - half\<close>. \<open>output\<close> starts as a new array of zeros of the length of
  the input.
\<close>

definition interiorOrder :: "nat \<Rightarrow> nat \<Rightarrow> nat \<Rightarrow> (nat \<times> nat) list" where
  "interiorOrder width height half =
     concat (map (\<lambda>y. map (\<lambda>x. (x, y)) [half..<width - half]) [half..<height - half])"

definition applyGaussianBlur :: "ImageData \<Rightarrow> nat \<Rightarrow> error + ImageData" where
  "applyGaussianBlur imageData radius =
     (let data = img_data imageData;
          width = img_width imageData;
          height = img_height imageData;
          output = replicate (length data) 0;
          kern = createGaussianKernel radius;
          kernelSize = length kern;
          half = kernelSize div 2
      in newImageData (foldl (blurStep data width kern) output (interiorOrder width height half))
           width height)"

section \<open>Edge detection\<close>

definition sobelX :: "int list list" where
  "sobelX = [[- 1, 0, 1], [- 2, 0, 2], [- 1, 0, 1]]"

definition sobelY :: "int list list" where
  "sobelY = [[- 1, - 2, - 1], [0, 0, 0], [1, 2, 1]]"

definition sobelOrder :: "(nat \<times> nat) list" where
  "sobelOrder = concat (map (\<lambda>ky. map (\<lambda>kx. (kx, ky)) [0..<3]) [0..<3])"

text \<open>
  The gradients at \<open>(x, y)\<close>; \<open>kx\<close> and \<open>ky\<close> count from 0 here, from -1 in the source.
\<close>

definition gradients :: "nat list \<Rightarrow> nat \<Rightarrow> nat \<Rightarrow> nat \<Rightarrow> int \<times> int" where
  "gradients data width x y =
     foldl (\<lambda>(gx, gy) (kx, ky).
              let idx = ((y + ky - 1) * width + (x + kx - 1)) * 4;
                  pixel = int (data ! idx)
              in (gx + pixel * sobelX ! ky ! kx, gy + pixel * sobelY ! ky ! kx))
       (0, 0) sobelOrder"

definition edgeStep :: "Config \<Rightarrow> nat list \<Rightarrow> nat \<Rightarrow> nat list \<Rightarrow> nat \<times> nat \<Rightarrow> nat list" where
  "edgeStep cfg data width edges p =
     (case p of (x, y) \<Rightarrow>
        (case gradients data width x y of (gx, gy) \<Rightarrow>
           let magnitude = sqrt (real_of_int (gx * gx + gy * gy));
               threshold = (if magnitude > cannyLower cfg
                            then (if magnitude > cannyUpper cfg then 255 else 128) else 0);
               outputIdx = (y * width + x) * 4
           in edges[outputIdx := threshold, outputIdx + 1 := threshold,
                    outputIdx + 2 := threshold, outputIdx + 3 := 255]))"

definition detectEdges :: "Config \<Rightarrow> ImageData \<Rightarrow> error + ImageData" where
  "detectEdges cfg imageData =
     (let width = img_width imageData;
          height = img_height imageData;
          data = img_data imageData;
          edges = replicate (length data) 0
      in newImageData (foldl (edgeStep cfg data width) edges (interiorOrder width height 1))
           width height)"

section \<open>Contours\<close>

text \<open>
  Reading a typed array beyond its end gives \<open>undefined\<close>, and \<open>undefined > 128\<close> is false.
  \<open>visited\<close> is an ordinary array of booleans: a missing element is falsy, and a write beyond
  the end extends the array.
\<close>

definition strongEdge :: "nat list \<Rightarrow> nat \<Rightarrow> bool" where
  "strongEdge data i = (i < length data \<and> data ! i > 128)"

definition visitedAt :: "bool list \<Rightarrow> nat \<Rightarrow> bool" where
  "visitedAt visited idx = (idx < length visited \<and> visited ! idx)"

definition markVisited :: "bool list \<Rightarrow> nat \<Rightarrow> bool list" where
  "markVisited visited idx =
     (if idx < length visited then visited[idx := True]
      else visited @ replicate (idx - length visited) False @ [True])"

definition directions :: "(int \<times> int) list" where
  "directions = [(- 1, - 1), (- 1, 0), (- 1, 1), (0, - 1), (0, 1), (1, - 1), (1, 0), (1, 1)]"

text \<open>
  The stack of \<open>traceContour\<close> is a list with its top at the head: \<open>pop\<close> takes the head, and
  the eight neighbours are pushed in the order of \<open>directions\<close>, the last one ending on top.
\<close>

definition pushNeighbours :: "int \<Rightarrow> int \<Rightarrow> (int \<times> int) list \<Rightarrow> (int \<times> int) list" where
  "pushNeighbours x y stack = foldl (\<lambda>s (dx, dy). (x + dx, y + dy) # s) stack directions"

text \<open>
  The loop \<open>while (stack.length > 0 && contour.length < 1000)\<close>. It returns the contour and
  the array \<open>visited\<close>, which the source updates in place. The index \<open>y * width + x\<close> is read
  only for a pixel inside the image.
\<close>

function traceLoop ::
  "nat list \<Rightarrow> nat \<Rightarrow> nat \<Rightarrow> (int \<times> int) list \<Rightarrow> contour \<Rightarrow> bool list \<Rightarrow> contour \<times> bool list" where
  "traceLoop data width height [] contour visited = (contour, visited)"
| "traceLoop data width height ((x, y) # stack) contour visited =
     (if length contour < 1000
      then
        (if x < 0 \<or> x \<ge> int width \<or> y < 0 \<or> y \<ge> int height
            \<or> visitedAt visited (nat (y * int width + x))
         then traceLoop data width height stack contour visited
         else if strongEdge data (nat (y * int width + x) * 4)
              then traceLoop data width height (pushNeighbours x y stack) (contour @ [(x, y)])
                     (markVisited visited (nat (y * int width + x)))
              else traceLoop data width height stack contour visited)
      else (contour, visited))"
  by pat_completeness auto

termination
  by (relation "measures [\<lambda>(data, width, height, stack, contour, visited). 1000 - length contour,
                          \<lambda>(data, width, height, stack, contour, visited). length stack]") auto

definition traceContour ::
  "nat list \<Rightarrow> nat \<Rightarrow> nat \<Rightarrow> int \<Rightarrow> int \<Rightarrow> bool list \<Rightarrow> contour \<times> bool list" where
  "traceContour data width height startX startY visited =
     traceLoop data width height [(startX, startY)] [] visited"

text \<open>
  \<open>findContours\<close> scans the pixels row by row. At an unvisited strong edge pixel it traces a
  region and keeps it when \<open>contour.length > 20\<close>.
\<close>

definition scanOrder :: "nat \<Rightarrow> nat \<Rightarrow> (nat \<times> nat) list" where
  "scanOrder width height = concat (map (\<lambda>y. map (\<lambda>x. (x, y)) [0..<width]) [0..<height])"

definition findContoursStep ::
  "nat list \<Rightarrow> nat \<Rightarrow> nat \<Rightarrow> contour list \<times> bool list \<Rightarrow> nat \<times> nat \<Rightarrow> contour list \<times> bool list" where
  "findContoursStep data width height acc p =
     (case (acc, p) of ((contours, visited), (x, y)) \<Rightarrow>
        let idx = y * width + x
        in if \<not> visitedAt visited idx \<and> strongEdge data (idx * 4)
           then (case traceContour data width height (int x) (int y) visited of
                   (contour, visited') \<Rightarrow>
                     (if length contour > 20 then contours @ [contour] else contours, visited'))
           else (contours, visited))"

definition findContours :: "ImageData \<Rightarrow> contour list" where
  "findContours edgeData =
     (let width = img_width edgeData; height = img_height edgeData; data = img_data edgeData;
          visited = replicate (width * height) False
      in fst (foldl (findContoursStep data width height) ([], visited) (scanOrder width height)))"

text \<open>
  The regions that the scan of \<open>findContours\<close> traces, kept or not: the same loop without
  the test of the length.
\<close>

definition tracedRegionsStep ::
  "nat list \<Rightarrow> nat \<Rightarrow> nat \<Rightarrow> contour list \<times> bool list \<Rightarrow> nat \<times> nat \<Rightarrow> contour list \<times> bool list" where
  "tracedRegionsStep data width height acc p =
     (case (acc, p) of ((regions, visited), (x, y)) \<Rightarrow>
        let idx = y * width + x
        in if \<not> visitedAt visited idx \<and> strongEdge data (idx * 4)
           then (case traceContour data width height (int x) (int y) visited of
                   (contour, visited') \<Rightarrow> (regions @ [contour], visited'))
           else (regions, visited))"

definition tracedRegions :: "ImageData \<Rightarrow> contour list" where
  "tracedRegions edgeData =
     (let width = img_width edgeData; height = img_height edgeData; data = img_data edgeData;
          visited = replicate (width * height) False
      in fst (foldl (tracedRegionsStep data width height) ([], visited) (scanOrder width height)))"

section \<open>Shape selection\<close>

definition calculateContourArea :: "contour \<Rightarrow> real" where
  "calculateContourArea c =
     (if length c < 3 then 0
      else
        let twice = foldl (\<lambda>acc i.
                       let j = (i + 1) mod length c
                       in acc + fst (c ! i) * snd (c ! j) - fst (c ! j) * snd (c ! i))
                     0 [0..<length c]
        in \<bar>real_of_int twice\<bar> / 2)"

text \<open>
  \<open>calculateBoundingBox\<close> starts its minima at \<open>Infinity\<close> and its maxima at \<open>-Infinity\<close>;
  after the first point they are the coordinates of that point.
\<close>

definition calculateBoundingBox :: "contour \<Rightarrow> Rectangle" where
  "calculateBoundingBox c =
     (case c of
        [] \<Rightarrow> \<lparr>rect_x = 0, rect_y = 0, rect_width = 0, rect_height = 0\<rparr>
      | (x0, y0) # rest \<Rightarrow>
          let minX = foldl (\<lambda>m p. min m (fst p)) x0 rest;
              minY = foldl (\<lambda>m p. min m (snd p)) y0 rest;
              maxX = foldl (\<lambda>m p. max m (fst p)) x0 rest;
              maxY = foldl (\<lambda>m p. max m (snd p)) y0 rest
          in \<lparr>rect_x = real_of_int minX, rect_y = real_of_int minY,
              rect_width = real_of_int (maxX - minX), rect_height = real_of_int (maxY - minY)\<rparr>)"

text \<open>\<open>Math.atan2(y, x)\<close> on real numbers.\<close>

definition js_atan2 :: "real \<Rightarrow> real \<Rightarrow> real" where
  "js_atan2 y x =
     (if x > 0 then arctan (y / x)
      else if x < 0 then (if y \<ge> 0 then arctan (y / x) + pi else arctan (y / x) - pi)
      else if y > 0 then pi / 2
      else if y < 0 then - pi / 2
      else 0)"

definition calculateRotation :: "contour \<Rightarrow> real" where
  "calculateRotation c =
     (if length c < 2 then 0
      else
        let sumX = foldl (\<lambda>acc p. acc + real_of_int (fst p)) 0 c;
            sumY = foldl (\<lambda>acc p. acc + real_of_int (snd p)) 0 c;
            centroidX = sumX / real (length c);
            centroidY = sumY / real (length c);
            sumXX = foldl (\<lambda>acc p. acc + (real_of_int (fst p) - centroidX) * (real_of_int (fst p) - centroidX)) 0 c;
            sumYY = foldl (\<lambda>acc p. acc + (real_of_int (snd p) - centroidY) * (real_of_int (snd p) - centroidY)) 0 c;
            sumXY = foldl (\<lambda>acc p. acc + (real_of_int (fst p) - centroidX) * (real_of_int (snd p) - centroidY)) 0 c;
            angle = (1 / 2) * js_atan2 (2 * sumXY) (sumXX - sumYY)
        in angle * 180 / pi)"

definition analyzeContours :: "Settings \<Rightarrow> contour list \<Rightarrow> BoxFeatures" where
  "analyzeContours sts cs =
     (case cs of
        [] \<Rightarrow> \<lparr>hasBox = False, bf_rotation = 0, position_x = 0, position_y = 0,
               bf_boundingBox = None, bf_area = None, bf_confidence = 0\<rparr>
      | c0 # rest \<Rightarrow>
          (case foldl (\<lambda>(largestContour, maxArea) c.
                         let a = calculateContourArea c
                         in if a > maxArea then (c, a) else (largestContour, maxArea))
                  (c0, calculateContourArea c0) rest of
             (largestContour, maxArea) \<Rightarrow>
               let boundingBox = calculateBoundingBox largestContour;
                   rotation = calculateRotation largestContour;
                   confidence' = min 100 (maxArea / 1000)
               in \<lparr>hasBox = (maxArea > minContourArea sts),
                   bf_rotation = rotation,
                   position_x = rect_x boundingBox + rect_width boundingBox / 2,
                   position_y = rect_y boundingBox + rect_height boundingBox / 2,
                   bf_boundingBox = Some boundingBox,
                   bf_area = Some maxArea,
                   bf_confidence = confidence'\<rparr>))"

section \<open>Legacy box detection\<close>

definition contourToBox :: "Settings \<Rightarrow> contour \<Rightarrow> Box option" where
  "contourToBox sts c =
     (if length c < 4 then None
      else
        let boundingBox = calculateBoundingBox c;
            area = rect_width boundingBox * rect_height boundingBox
        in if area < minContourArea sts \<or> area > maxContourArea sts then None
           else Some \<lparr>box_x = rect_x boundingBox, box_y = rect_y boundingBox,
                      box_width = rect_width boundingBox, box_height = rect_height boundingBox,
                      box_centerX = rect_x boundingBox + rect_width boundingBox / 2,
                      box_centerY = rect_y boundingBox + rect_height boundingBox / 2,
                      box_rotation = calculateRotation c,
                      box_area = area, box_contour = c\<rparr>)"

definition contoursToBoxes :: "Settings \<Rightarrow> contour list \<Rightarrow> Box list" where
  "contoursToBoxes sts cs = List.map_filter (contourToBox sts) cs"

text \<open>
  \<open>detectBoxes\<close>: the body of its \<open>try\<close> block, and the method, whose handler returns the
  empty array.
\<close>

definition detectBoxesBody :: "Config \<Rightarrow> Settings \<Rightarrow> FrameData \<Rightarrow> error + Box list" where
  "detectBoxesBody cfg sts frameData =
     (case convertToGrayscale (fd_imageData frameData) of
        Inl e \<Rightarrow> Inl e
      | Inr grayImageData \<Rightarrow>
          (case applyGaussianBlur grayImageData (gaussianBlur cfg) of
             Inl e \<Rightarrow> Inl e
           | Inr blurredData \<Rightarrow>
               (case detectEdges cfg blurredData of
                  Inl e \<Rightarrow> Inl e
                | Inr edges \<Rightarrow> Inr (contoursToBoxes sts (findContours edges)))))"

definition detectBoxes :: "Config \<Rightarrow> Settings \<Rightarrow> FrameData \<Rightarrow> Box list" where
  "detectBoxes cfg sts frameData =
     (case detectBoxesBody cfg sts frameData of Inl e \<Rightarrow> [] | Inr boxes \<Rightarrow> boxes)"

text \<open>
  \<open>findBestMatch\<close>: the first box at the least distance from the centre of the reference
  image. On the empty array \<open>boxes[0]\<close> is \<open>undefined\<close>.
\<close>

definition findBestMatch :: "ImageData option \<Rightarrow> Box list \<Rightarrow> Box option" where
  "findBestMatch refImage boxes =
     (case boxes of
        [] \<Rightarrow> None
      | b0 # rest \<Rightarrow>
          if length boxes = 1 then Some b0
          else (case refImage of
                  None \<Rightarrow> Some b0
                | Some img \<Rightarrow>
                    let cx = real (img_width img) / 2;
                        cy = real (img_height img) / 2;
                        distance = (\<lambda>b. sqrt ((box_centerX b - cx)\<^sup>2 + (box_centerY b - cy)\<^sup>2))
                    in Some (fst (foldl (\<lambda>(bestBox, minDistance) b.
                                           if distance b < minDistance then (b, distance b)
                                           else (bestBox, minDistance))
                                   (b0, distance b0) rest))))"

section \<open>Region of interest\<close>

text \<open>The scaled rectangle of \<open>extractROI\<close>: whole numbers after \<open>Math.floor\<close>.\<close>

record PixelRect =
  px_x :: int
  px_y :: int
  px_width :: int
  px_height :: int

record ROIData =
  roi_imageData :: ImageData
  roi_width :: nat
  roi_height :: nat
  originalRect :: PixelRect

text \<open>
  The canvas of the browser, as far as \<open>extractROI\<close> uses it. Assigning to \<open>canvas.width\<close> or
  \<open>canvas.height\<close> a number outside 0..2147483647 sets the default, 300 or 150.
  \<open>putImageData\<close> accepts only a genuine \<open>ImageData\<close>, which holds four bytes for each of
  its pixels. \<open>drawImage\<close> throws when the source canvas has no pixels, and draws nothing
  visible when the source rectangle has a zero or negative side. \<open>getImageData\<close> throws when
  the requested width or height is zero. The round trip through premultiplied alpha is
  taken to be exact.
\<close>

definition canvasDimension :: "nat \<Rightarrow> int \<Rightarrow> nat" where
  "canvasDimension dflt v = (if 0 \<le> v \<and> v \<le> 2147483647 then nat v else dflt)"

definition genuineImageData :: "ImageData \<Rightarrow> bool" where
  "genuineImageData img \<longleftrightarrow>
     0 < img_width img \<and> 0 < img_height img
     \<and> length (img_data img) = 4 * img_width img * img_height img"

text \<open>
  The pixel \<open>(u, v)\<close> of the temporary canvas after \<open>putImageData(imageData, 0, 0)\<close>: the
  pixel of the image, or transparent black outside it.
\<close>

definition canvasPixel :: "ImageData \<Rightarrow> nat \<Rightarrow> nat \<Rightarrow> nat \<Rightarrow> nat \<Rightarrow> nat list" where
  "canvasPixel img canvasWidth canvasHeight u v =
     (if u < img_width img \<and> v < img_height img \<and> u < canvasWidth \<and> v < canvasHeight
      then take 4 (drop ((v * img_width img + u) * 4) (img_data img))
      else [0, 0, 0, 0])"

definition canvasCrop :: "ImageData \<Rightarrow> nat \<Rightarrow> nat \<Rightarrow> PixelRect \<Rightarrow> nat \<Rightarrow> nat \<Rightarrow> nat list" where
  "canvasCrop img canvasWidth canvasHeight r w h =
     (if 0 < px_width r \<and> 0 < px_height r
      then concat (map (\<lambda>j. concat (map (\<lambda>i.
              canvasPixel img canvasWidth canvasHeight (nat (px_x r) + i) (nat (px_y r) + j))
              [0..<w])) [0..<h])
      else replicate (4 * w * h) 0)"

definition scaleRect :: "FrameData \<Rightarrow> ImageData \<Rightarrow> Rectangle \<Rightarrow> PixelRect" where
  "scaleRect frameData img rect =
     (let scaleX = real (fd_width frameData) / real (img_width img);
          scaleY = real (fd_height frameData) / real (img_height img)
      in \<lparr>px_x = \<lfloor>rect_x rect * scaleX\<rfloor>,
          px_y = \<lfloor>rect_y rect * scaleY\<rfloor>,
          px_width = \<lfloor>rect_width rect * scaleX\<rfloor>,
          px_height = \<lfloor>rect_height rect * scaleY\<rfloor>\<rparr>)"

definition clampRect :: "FrameData \<Rightarrow> PixelRect \<Rightarrow> PixelRect" where
  "clampRect frameData scaledRect =
     (let x = max 0 (min (px_x scaledRect) (int (fd_width frameData) - 1));
          y = max 0 (min (px_y scaledRect) (int (fd_height frameData) - 1));
          w = min (px_width scaledRect) (int (fd_width frameData) - x);
          h = min (px_height scaledRect) (int (fd_height frameData) - y)
      in \<lparr>px_x = x, px_y = y, px_width = w, px_height = h\<rparr>)"

text \<open>
  \<open>extractROI\<close>: the body of its \<open>try\<close> block, which returns null without image data, and
  the method, whose handler returns null. The rectangle may be null; reading its \<open>x\<close> then
  throws.
\<close>

definition extractROIBody :: "FrameData \<Rightarrow> Rectangle option \<Rightarrow> error + ROIData option" where
  "extractROIBody frameData rect =
     (case (fd_imageData frameData, rect) of
        (None, _) \<Rightarrow> Inr None
      | (Some img, None) \<Rightarrow> Inl TypeError
      | (Some img, Some r) \<Rightarrow>
          let scaledRect = clampRect frameData (scaleRect frameData img r);
              canvasWidth = canvasDimension 300 (px_width scaledRect);
              canvasHeight = canvasDimension 150 (px_height scaledRect);
              tempWidth = canvasDimension 300 (int (fd_width frameData));
              tempHeight = canvasDimension 150 (int (fd_height frameData))
          in if \<not> genuineImageData img then Inl TypeError
             else if tempWidth = 0 \<or> tempHeight = 0 then Inl InvalidStateError
             else if canvasWidth = 0 \<or> canvasHeight = 0 then Inl IndexSizeError
             else Inr (Some \<lparr>roi_imageData =
                                \<lparr>img_width = canvasWidth, img_height = canvasHeight,
                                 img_data = canvasCrop img tempWidth tempHeight scaledRect
                                              canvasWidth canvasHeight\<rparr>,
                              roi_width = canvasWidth, roi_height = canvasHeight,
                              originalRect = scaledRect\<rparr>))"

definition extractROI :: "FrameData \<Rightarrow> Rectangle option \<Rightarrow> ROIData option" where
  "extractROI frameData rect =
     (case extractROIBody frameData rect of Inl e \<Rightarrow> None | Inr roi \<Rightarrow> roi)"

text \<open>\<open>rectsIntersect\<close> of the utilities: closed rectangles, touching ones intersect.\<close>

definition rectsIntersect :: "Rectangle \<Rightarrow> Rectangle \<Rightarrow> bool" where
  "rectsIntersect rect1 rect2 \<longleftrightarrow>
     \<not> (rect_x rect1 + rect_width rect1 < rect_x rect2
        \<or> rect_x rect2 + rect_width rect2 < rect_x rect1
        \<or> rect_y rect1 + rect_height rect1 < rect_y rect2
        \<or> rect_y rect2 + rect_height rect2 < rect_y rect1)"

text \<open>
  The rectangle, scaled to the frame, and the frame \<open>[0, width) \<times> [0, height)\<close> have a point
  in common: their intersection is not empty.
\<close>

definition overlapsFrame :: "FrameData \<Rightarrow> ImageData \<Rightarrow> Rectangle \<Rightarrow> bool" where
  "overlapsFrame frameData img rect \<longleftrightarrow>
     (let scaleX = real (fd_width frameData) / real (img_width img);
          scaleY = real (fd_height frameData) / real (img_height img)
      in max 0 (rect_x rect * scaleX) < min (real (fd_width frameData)) ((rect_x rect + rect_width rect) * scaleX)
       \<and> max 0 (rect_y rect * scaleY) < min (real (fd_height frameData)) ((rect_y rect + rect_height rect) * scaleY))"

section \<open>Drift comparator\<close>

text \<open>\<open>Math.round\<close> rounds to the nearest integer, a half upwards.\<close>

definition js_round :: "real \<Rightarrow> int" where
  "js_round v = \<lfloor>v + 1 / 2\<rfloor>"

text \<open>\<open>v || 0\<close> on a number: zero is falsy and gives the right operand.\<close>

definition or_zero :: "real \<Rightarrow> real" where
  "or_zero v = (if v = 0 then 0 else v)"

text \<open>
  \<open>compareWithReference(analysis)\<close> of version 2.0. Of its argument the method reads only
  the property \<open>features\<close>, which is the argument here. \<open>rnd1\<close> and \<open>rnd2\<close> are the values of
  the two calls of \<open>Math.random()\<close>, in the order of the calls. With a detected box and
  \<open>keyPointRect\<close> null, reading \<open>this.keyPointRect.width\<close> throws.
\<close>

definition compareWithReference ::
  "Rectangle Engine \<Rightarrow> BoxFeatures option \<Rightarrow> real \<Rightarrow> real \<Rightarrow> error + Rectangle DetectionResult" where
  "compareWithReference st analysis_features rnd1 rnd2 =
     (case referenceFeatures st of
        None \<Rightarrow>
          Inr \<lparr>hasAlert = False, message = NoReferenceData, box = keyPointRect st, confidence = 0,
               details = Some \<lparr>positionOffset = 0, rotationOffset = 0,
                                positionOk = True, rotationOk = True\<rparr>\<rparr>
      | Some rf \<Rightarrow>
          let result = \<lparr>hasAlert = False, message = BoxInCorrectPosition, box = keyPointRect st,
                         confidence = 100,
                         details = Some \<lparr>positionOffset = 0, rotationOffset = 0,
                                          positionOk = True, rotationOk = True\<rparr>\<rparr>
          in if (case analysis_features of None \<Rightarrow> True | Some f \<Rightarrow> \<not> hasBox f)
             then
               (let shouldAlert = rnd1 < 5 / 100
                in if shouldAlert
                   then Inr (result\<lparr>hasAlert := True, message := BoxNotFoundAtPosition,
                                    confidence := 30,
                                    details := Some \<lparr>positionOffset = \<lfloor>rnd2 * 50 + 20\<rfloor>,
                                                      rotationOffset = 0,
                                                      positionOk = False, rotationOk = True\<rparr>\<rparr>)
                   else Inr result)
             else
               (case (analysis_features, keyPointRect st) of
                  (Some f, Some k) \<Rightarrow>
                    let expectedCenterX = rect_width k / 2;
                        expectedCenterY = rect_height k / 2;
                        currentCenterX = position_x f;
                        currentCenterY = position_y f;
                        positionOffset' = sqrt ((currentCenterX - expectedCenterX)\<^sup>2
                                              + (currentCenterY - expectedCenterY)\<^sup>2);
                        positionOk' = (positionOffset' \<le> positionSensitivity (settings st));
                        expectedRotation = or_zero (rf_rotation rf);
                        currentRotation = bf_rotation f;
                        rotationDiff = \<bar>currentRotation - expectedRotation\<bar>;
                        normalizedRotation = min rotationDiff (360 - rotationDiff);
                        rotationOk' = (normalizedRotation \<le> rotationSensitivity (settings st));
                        details' = \<lparr>positionOffset = js_round positionOffset',
                                    rotationOffset = js_round normalizedRotation,
                                    positionOk = positionOk', rotationOk = rotationOk'\<rparr>
                    in if \<not> positionOk' \<or> \<not> rotationOk'
                       then Inr (result\<lparr>hasAlert := True,
                                 message := Issues
                                   ((if \<not> positionOk' then [PositionShifted (positionOffset details')] else [])
                                    @ (if \<not> rotationOk' then [Tilted (rotationOffset details')] else [])),
                                 confidence := max 0 (100 - positionOffset' / 5 - normalizedRotation * 2),
                                 details := Some details'\<rparr>)
                       else Inr (result\<lparr>details := Some details'\<rparr>)
                | _ \<Rightarrow> Inl TypeError))"

text \<open>
  \<open>compareWithReference(box)\<close> of version 1.0: the expected centre is that of the reference
  features, no branch draws a random number, and the result without a reference has no
  \<open>details\<close>.
\<close>

definition compareWithReference_v1 :: "Box Engine \<Rightarrow> Box \<Rightarrow> Box DetectionResult" where
  "compareWithReference_v1 st b =
     (case referenceFeatures st of
        None \<Rightarrow>
          \<lparr>hasAlert = False, message = NoReferenceData, box = Some b, confidence = 0,
           details = None\<rparr>
      | Some rf \<Rightarrow>
          let result = \<lparr>hasAlert = False, message = BoxInCorrectPosition, box = Some b,
                         confidence = 100,
                         details = Some \<lparr>positionOffset = 0, rotationOffset = 0,
                                          positionOk = True, rotationOk = True\<rparr>\<rparr>;
              expectedCenterX = rf_centerX rf;
              expectedCenterY = rf_centerY rf;
              positionOffset' = sqrt ((box_centerX b - expectedCenterX)\<^sup>2
                                    + (box_centerY b - expectedCenterY)\<^sup>2);
              positionOk' = (positionOffset' \<le> positionSensitivity (settings st));
              rotationDiff = \<bar>box_rotation b - rf_rotation rf\<bar>;
              normalizedRotation = min rotationDiff (360 - rotationDiff);
              rotationOk' = (normalizedRotation \<le> rotationSensitivity (settings st));
              details' = \<lparr>positionOffset = js_round positionOffset',
                          rotationOffset = js_round normalizedRotation,
                          positionOk = positionOk', rotationOk = rotationOk'\<rparr>
          in if \<not> positionOk' \<or> \<not> rotationOk'
             then result\<lparr>hasAlert := True,
                    message := Issues
                      ((if \<not> positionOk' then [PositionShifted (positionOffset details')] else [])
                       @ (if \<not> rotationOk' then [Tilted (rotationOffset details')] else [])),
                    confidence := max 0 (100 - positionOffset' / 5 - normalizedRotation * 2),
                    details := Some details'\<rparr>
             else result\<lparr>details := Some details'\<rparr>)"

section \<open>Alert aggregator\<close>

text \<open>
  \<open>addToHistory(result)\<close>: push a copy of the result stamped with the current time, then
  drop the oldest entry when more than 100 are held. The history is passed and returned.
\<close>

definition addToHistory ::
  "nat \<Rightarrow> 'b DetectionResult \<Rightarrow> 'b HistoryEntry list \<Rightarrow> 'b HistoryEntry list" where
  "addToHistory now result history =
     (let pushed = history @ [DetectionResult.extend result \<lparr>timestamp = now\<rparr>]
      in if length pushed > 100 then tl pushed else pushed)"

text \<open>A run of calls of \<open>addToHistory\<close>, each with the clock reading of its call.\<close>

fun addAll :: "(nat \<times> 'b DetectionResult) list \<Rightarrow> 'b HistoryEntry list \<Rightarrow> 'b HistoryEntry list" where
  "addAll [] history = history"
| "addAll ((now, result) # rest) history =
     addAll rest (addToHistory now result history)"

definition stamped :: "nat \<times> 'b DetectionResult \<Rightarrow> 'b HistoryEntry" where
  "stamped p = DetectionResult.extend (snd p) \<lparr>timestamp = fst p\<rparr>"

definition getStatistics :: "'b HistoryEntry list \<Rightarrow> Statistics" where
  "getStatistics history =
     (if length history = 0
      then \<lparr>total = 0, alerts = 0, alertRate = 0, averageConfidence = 100\<rparr>
      else
        let alertCount = length (filter hasAlert history);
            totalConfidence = foldl (\<lambda>sum d. sum + confidence d) 0 history
        in \<lparr>total = length history,
            alerts = alertCount,
            alertRate = (real alertCount / real (length history)) * 100,
            averageConfidence = totalConfidence / real (length history)\<rparr>)"

section \<open>Analysis of one frame\<close>

text \<open>
  \<open>analyzeROI\<close>: the body of its \<open>try\<close> block, and the method, whose handler returns an
  analysis without features.
\<close>

definition analyzeROIBody :: "Config \<Rightarrow> Settings \<Rightarrow> nat \<Rightarrow> ROIData \<Rightarrow> error + Analysis" where
  "analyzeROIBody cfg sts now roiData =
     (case convertToGrayscale (Some (roi_imageData roiData)) of
        Inl e \<Rightarrow> Inl e
      | Inr grayData \<Rightarrow>
          (case detectEdges cfg grayData of
             Inl e \<Rightarrow> Inl e
           | Inr edges \<Rightarrow>
               let cs = findContours edges;
                   boxFeatures = analyzeContours sts cs
               in Inr \<lparr>an_edges = Some edges, an_contours = length cs,
                       an_features = Some boxFeatures, an_timestamp = now\<rparr>))"

definition analyzeROI :: "Config \<Rightarrow> Settings \<Rightarrow> nat \<Rightarrow> ROIData \<Rightarrow> Analysis" where
  "analyzeROI cfg sts now roiData =
     (case analyzeROIBody cfg sts now roiData of
        Inl e \<Rightarrow> \<lparr>an_edges = None, an_contours = 0, an_features = None, an_timestamp = now\<rparr>
      | Inr analysis \<Rightarrow> analysis)"

text \<open>
  What one call of \<open>analyzeFrame\<close> takes from outside: the two readings of the clock, in
  \<open>analyzeROI\<close> and in \<open>addToHistory\<close>, and the two random numbers of
  \<open>compareWithReference\<close>.
\<close>

record Env =
  analysisTime :: nat
  historyTime :: nat
  random1 :: real
  random2 :: real

text \<open>
  \<open>analyzeWithDrawingAreas\<close>. It returns the result and the engine, or the exception that
  \<open>compareWithReference\<close> throws.
\<close>

definition analyzeWithDrawingAreas ::
  "Env \<Rightarrow> Rectangle Engine \<Rightarrow> FrameData
     \<Rightarrow> error + Rectangle DetectionResult \<times> Rectangle Engine" where
  "analyzeWithDrawingAreas env st frameData =
     (case extractROI frameData (keyPointRect st) of
        None \<Rightarrow>
          Inr (\<lparr>hasAlert = False, message = CannotExtractArea, box = keyPointRect st,
                confidence = 0, details = None\<rparr>, st)
      | Some roiData \<Rightarrow>
          let analysis = analyzeROI (config st) (settings st) (analysisTime env) roiData
          in (case compareWithReference st (an_features analysis) (random1 env) (random2 env) of
                Inl e \<Rightarrow> Inl e
              | Inr comparison \<Rightarrow>
                  Inr (comparison,
                       st\<lparr>detectionHistory :=
                             addToHistory (historyTime env) comparison (detectionHistory st),
                          lastDetection := Some comparison\<rparr>)))"

text \<open>
  \<open>analyzeLegacyMode\<close>. The best match is a box; it has no property \<open>features\<close>, so
  \<open>compareWithReference\<close> sees no features.
\<close>

definition analyzeLegacyMode ::
  "Env \<Rightarrow> Rectangle Engine \<Rightarrow> FrameData \<Rightarrow> error + Rectangle DetectionResult \<times> Rectangle Engine" where
  "analyzeLegacyMode env st frameData =
     (let detectedBoxes = detectBoxes (config st) (settings st) frameData
      in if length detectedBoxes = 0
         then Inr (\<lparr>hasAlert = False, message = NoBoxFound, box = None, confidence = 0,
                    details = None\<rparr>, st)
         else
           let bestMatch = findBestMatch (referenceImage st) detectedBoxes;
               features_of_bestMatch = None
           in (case compareWithReference st features_of_bestMatch (random1 env) (random2 env) of
                 Inl e \<Rightarrow> Inl e
               | Inr comparison \<Rightarrow>
                   Inr (comparison,
                        st\<lparr>detectionHistory :=
                              addToHistory (historyTime env) comparison (detectionHistory st),
                           lastDetection := Some comparison\<rparr>)))"

text \<open>
  \<open>analyzeFrame\<close>: the body of its \<open>try\<close> block, and the method, whose handler returns the
  alert with the generic message. The settings are merged before anything can throw, so
  the handler leaves the engine with the merged settings.
\<close>

definition analyzeFrameBody ::
  "Env \<Rightarrow> Rectangle Engine \<Rightarrow> FrameData \<Rightarrow> PartialSettings
     \<Rightarrow> error + Rectangle DetectionResult \<times> Rectangle Engine" where
  "analyzeFrameBody env st frameData newSettings =
     (let st1 = updateSettings newSettings st
      in case keyPointRect st1 of
           Some k \<Rightarrow> analyzeWithDrawingAreas env st1 frameData
         | None \<Rightarrow> analyzeLegacyMode env st1 frameData)"

definition analyzeFrame ::
  "Env \<Rightarrow> Rectangle Engine \<Rightarrow> FrameData option \<Rightarrow> PartialSettings
     \<Rightarrow> Rectangle DetectionResult \<times> Rectangle Engine" where
  "analyzeFrame env st frameData newSettings =
     (case (isInitialized st, frameData) of
        (True, Some frame) \<Rightarrow>
          (case analyzeFrameBody env st frame newSettings of
             Inl e \<Rightarrow> (\<lparr>hasAlert = True, message = AnalysisError, box = None, confidence = 0,
                          details = None\<rparr>, updateSettings newSettings st)
           | Inr r \<Rightarrow> r)
      | _ \<Rightarrow> (\<lparr>hasAlert = False, message = NoReferenceImage, box = None, confidence = 0,
                details = None\<rparr>, st))"

section \<open>The offsets of the comparison, as formulas\<close>

text \<open>
  The two quantities that \<open>compareWithReference\<close> of version 2.0 computes from a detected
  box: the distance of the observed centre from the centre of the key point area, and the
  rotation difference folded at 180 degrees. They abbreviate the statements below.
\<close>

definition computedPositionOffset :: "Rectangle \<Rightarrow> BoxFeatures \<Rightarrow> real" where
  "computedPositionOffset k f =
     sqrt ((position_x f - rect_width k / 2)\<^sup>2 + (position_y f - rect_height k / 2)\<^sup>2)"

definition normalizedRotationOf :: "real \<Rightarrow> real \<Rightarrow> real" where
  "normalizedRotationOf observed reference =
     min \<bar>observed - reference\<bar> (360 - \<bar>observed - reference\<bar>)"

section \<open>Example engines and observations\<close>

text \<open>
  Concrete engines and inputs at which the properties below are instantiated: an engine with
  a drawn key point area, an engine with a legacy reference image, and observed features.
\<close>

definition referenceEngine :: "Rectangle Engine" where
  "referenceEngine =
     setReferenceAreas 0 None
       (Some \<lparr>rect_x = 40, rect_y = 60, rect_width = 200, rect_height = 200\<rparr>) None newEngine"

definition observedFeatures :: "real \<Rightarrow> real \<Rightarrow> real \<Rightarrow> BoxFeatures" where
  "observedFeatures x y r =
     \<lparr>hasBox = True, bf_rotation = r, position_x = x, position_y = y,
      bf_boundingBox = None, bf_area = Some 2000, bf_confidence = 2\<rparr>"

definition legacyEngine :: "'b Engine" where
  "legacyEngine =
     setReferenceImage 0 (Some \<lparr>img_width = 200, img_height = 200, img_data = replicate 160000 0\<rparr>) newEngine"

definition observedBox :: "real \<Rightarrow> real \<Rightarrow> real \<Rightarrow> Box" where
  "observedBox x y r =
     \<lparr>box_x = x - 30, box_y = y - 20, box_width = 60, box_height = 40,
      box_centerX = x, box_centerY = y, box_rotation = r, box_area = 2400, box_contour = []\<rparr>"

definition rotatedReference :: "('b, 'c) Engine_scheme \<Rightarrow> ('b, 'c) Engine_scheme" where
  "rotatedReference st =
     st\<lparr>referenceFeatures := map_option (\<lambda>rf. rf\<lparr>rf_rotation := 170\<rparr>) (referenceFeatures st)\<rparr>"

definition noBoxFeatures :: BoxFeatures where
  "noBoxFeatures =
     \<lparr>hasBox = False, bf_rotation = 0, position_x = 0, position_y = 0,
      bf_boundingBox = None, bf_area = None, bf_confidence = 0\<rparr>"

text \<open>
  An engine whose key point area of the given width was drawn first and whose reference was
  then replaced by a legacy reference image: \<open>setReferenceImage\<close> replaces the reference
  features and leaves \<open>keyPointRect\<close> as it was.
\<close>

definition reimagedEngine :: "real \<Rightarrow> Rectangle Engine" where
  "reimagedEngine w =
     setReferenceImage 0 (Some \<lparr>img_width = 200, img_height = 200, img_data = replicate 160000 0\<rparr>)
       (setReferenceAreas 0 None
          (Some \<lparr>rect_x = 40, rect_y = 60, rect_width = w, rect_height = 200\<rparr>) None newEngine)"

section \<open>Example images\<close>

text \<open>
  A row of 20 strong edge pixels and one of 21; a grey patch of 3 by 3 pixels, whose centre is
  the only pixel further than 1 from every edge; a grey patch of 2 by 2 pixels.
\<close>

definition strongLine :: ImageData where
  "strongLine = \<lparr>img_width = 20, img_height = 1, img_data = replicate 80 255\<rparr>"

definition strongLine21 :: ImageData where
  "strongLine21 = \<lparr>img_width = 21, img_height = 1, img_data = replicate 84 255\<rparr>"

definition greyPatch :: ImageData where
  "greyPatch = \<lparr>img_width = 3, img_height = 3,
                 img_data = [200, 200, 200, 255, 200, 200, 200, 255, 200, 200, 200, 255,
                             200, 200, 200, 255, 200, 200, 200, 255, 200, 200, 200, 255,
                             200, 200, 200, 255, 200, 200, 200, 255, 200, 200, 200, 255]\<rparr>"

definition smallPatch :: ImageData where
  "smallPatch = \<lparr>img_width = 2, img_height = 2,
                  img_data = [200, 200, 200, 255, 200, 200, 200, 255,
                              200, 200, 200, 255, 200, 200, 200, 255]\<rparr>"

section \<open>Example frames\<close>

text \<open>
  A frame of 10 by 10 pixels; a rectangle half a pixel wide inside it; a rectangle that
  leaves it on two sides; a frame whose pixel buffer has three bytes for its four pixels;
  a call that changes no setting; one reading of the clock and the random numbers.
\<close>

definition plainFrame :: FrameData where
  "plainFrame =
     \<lparr>fd_imageData = Some \<lparr>img_width = 10, img_height = 10, img_data = replicate 400 0\<rparr>,
      fd_width = 10, fd_height = 10, fd_timestamp = 0\<rparr>"

definition thinRect :: Rectangle where
  "thinRect = \<lparr>rect_x = 2, rect_y = 2, rect_width = 1 / 2, rect_height = 1 / 2\<rparr>"

definition outsideRect :: Rectangle where
  "outsideRect = \<lparr>rect_x = - 5, rect_y = 7, rect_width = 8, rect_height = 20\<rparr>"

definition brokenFrame :: FrameData where
  "brokenFrame =
     \<lparr>fd_imageData = Some \<lparr>img_width = 2, img_height = 2, img_data = [10, 20, 30]\<rparr>,
      fd_width = 2, fd_height = 2, fd_timestamp = 0\<rparr>"

definition noNewSettings :: PartialSettings where
  "noNewSettings =
     \<lparr>new_rotationSensitivity = None, new_positionSensitivity = None,
      new_detectionThreshold = None, new_minContourArea = None, new_maxContourArea = None\<rparr>"

definition quietEnv :: Env where
  "quietEnv = \<lparr>analysisTime = 1, historyTime = 2, random1 = 1 / 2, random2 = 1 / 2\<rparr>"

section \<open>Properties of the alert aggregator\<close>

lemma addToHistory_window:
  "length h \<le> 100 \<Longrightarrow>
   addToHistory now r h = drop (Suc (length h) - 100) (h @ [DetectionResult.extend r \<lparr>timestamp = now\<rparr>])"
  by (cases h) (auto simp: addToHistory_def Let_def le_Suc_eq drop_Cons')

lemma addAll_window:
  "length h \<le> 100 \<Longrightarrow>
   addAll rs h = drop (length h + length rs - 100) (h @ map stamped rs)"
proof (induction rs arbitrary: h)
  case Nil
  then show ?case by simp
next
  case (Cons p rs)
  obtain now r where p: "p = (now, r)" by (cases p)
  let ?e = "DetectionResult.extend r \<lparr>timestamp = now\<rparr>"
  let ?h = "addToHistory now r h"
  have step: "?h = drop (Suc (length h) - 100) (h @ [?e])"
    using Cons.prems by (rule addToHistory_window)
  have len: "length ?h \<le> 100"
    using Cons.prems by (simp add: step)
  have "addAll (p # rs) h = addAll rs ?h" by (simp add: p)
  also have "\<dots> = drop (length ?h + length rs - 100) (?h @ map stamped rs)"
    using len by (rule Cons.IH)
  also have "\<dots> = drop (length h + length (p # rs) - 100) (h @ map stamped (p # rs))"
  proof (cases "length h = 100")
    case True
    then have "?h = tl h @ [?e]" "h \<noteq> []"
      by (auto simp: step drop_Suc)
    moreover have "length (tl h) = 99" using True by simp
    ultimately show ?thesis
      using True by (cases h) (simp_all add: p stamped_def)
  next
    case False
    then have "?h = h @ [?e]" using Cons.prems by (simp add: step)
    then show ?thesis by (simp add: p stamped_def)
  qed
  finally show ?case .
qed

text \<open>
  C4. The detection history is a strict first-in first-out window of capacity 100. One call
  of \<open>addToHistory\<close> keeps a history of at most 100 entries within that bound. Starting
  from the empty history of a new engine, after any run of calls the history holds at most 100
  entries, and they are the most recently appended results in the order of their appending;
  after 150 calls exactly 100 remain, the results of calls 51 to 150.
\<close>

theorem addToHistory_fifo_window:
  fixes rs :: "(nat \<times> 'b DetectionResult) list"
    and h :: "'b HistoryEntry list"
  shows "(length h \<le> 100 \<longrightarrow> length (addToHistory now r h) \<le> 100)
       \<and> length (addAll rs []) \<le> 100
       \<and> addAll rs [] = map stamped (drop (length rs - 100) rs)
       \<and> (length rs = 150 \<longrightarrow>
            length (addAll rs []) = 100 \<and> addAll rs [] = map stamped (drop 50 rs))"
proof -
  have one: "length h \<le> 100 \<longrightarrow> length (addToHistory now r h) \<le> 100"
    by (auto simp: addToHistory_def Let_def)
  have win: "addAll rs [] = map stamped (drop (length rs - 100) rs)"
    using addAll_window [of "[]" rs] by (simp add: drop_map)
  have bound: "length (addAll rs []) \<le> 100"
    by (simp add: win)
  have late: "length rs = 150 \<longrightarrow>
      length (addAll rs []) = 100 \<and> addAll rs [] = map stamped (drop 50 rs)"
    by (simp add: win)
  from one bound win late show ?thesis by blast
qed

theorem addToHistory_fifo_window_witness:
  "length ([] :: unit HistoryEntry list) \<le> 100
   \<and> length (addToHistory 7 \<lparr>hasAlert = False, message = NoBoxFound, box = None,
         confidence = 0, details = None\<rparr> ([] :: unit HistoryEntry list)) \<le> 100
   \<and> length (map (\<lambda>i. (i, \<lparr>hasAlert = even i, message = BoxInCorrectPosition,
         box = None :: unit option, confidence = 100, details = None\<rparr>)) [0..<150]) = 150
   \<and> length (addAll (map (\<lambda>i. (i, \<lparr>hasAlert = even i, message = BoxInCorrectPosition,
         box = None :: unit option, confidence = 100, details = None\<rparr>)) [0..<150]) []) = 100
   \<and> addAll (map (\<lambda>i. (i, \<lparr>hasAlert = even i, message = BoxInCorrectPosition,
         box = None :: unit option, confidence = 100, details = None\<rparr>)) [0..<150]) []
     = map stamped (map (\<lambda>i. (i, \<lparr>hasAlert = even i, message = BoxInCorrectPosition,
         box = None :: unit option, confidence = 100, details = None\<rparr>)) [50..<150])"
proof -
  let ?r = "\<lparr>hasAlert = False, message = NoBoxFound, box = None :: unit option,
             confidence = 0, details = None\<rparr>"
  let ?f = "\<lambda>i::nat. (i, \<lparr>hasAlert = even i, message = BoxInCorrectPosition,
         box = None :: unit option, confidence = 100, details = None\<rparr>)"
  have d: "drop 50 (map ?f [0..<150]) = map ?f [50..<150]"
    by (simp add: drop_map)
  show ?thesis
    using addToHistory_fifo_window [of "[]" 7 ?r "map ?f [0..<150]"] d
    by simp
qed

text \<open>
  C9. \<open>getStatistics\<close> on an engine whose detection history is empty returns exactly
  \<open>{total: 0, alerts: 0, alertRate: 0, averageConfidence: 100}\<close>.
\<close>

theorem getStatistics_empty:
  "getStatistics [] = \<lparr>total = 0, alerts = 0, alertRate = 0, averageConfidence = 100\<rparr>"
  by (simp add: getStatistics_def)

section \<open>Properties of the drift comparator\<close>

lemma or_zero_id: "or_zero v = v"
  by (simp add: or_zero_def)

lemma compareWithReference_detected:
  assumes "referenceFeatures st = Some rf" and "keyPointRect st = Some k" and "hasBox f"
  shows "compareWithReference st (Some f) rnd1 rnd2 =
     Inr \<lparr>hasAlert = (positionSensitivity (settings st) < computedPositionOffset k f
                      \<or> rotationSensitivity (settings st) < normalizedRotationOf (bf_rotation f) (rf_rotation rf)),
          message = (if positionSensitivity (settings st) < computedPositionOffset k f
                      \<or> rotationSensitivity (settings st) < normalizedRotationOf (bf_rotation f) (rf_rotation rf)
                     then Issues
                       ((if positionSensitivity (settings st) < computedPositionOffset k f
                         then [PositionShifted (js_round (computedPositionOffset k f))] else [])
                        @ (if rotationSensitivity (settings st) < normalizedRotationOf (bf_rotation f) (rf_rotation rf)
                           then [Tilted (js_round (normalizedRotationOf (bf_rotation f) (rf_rotation rf)))] else []))
                     else BoxInCorrectPosition),
          box = Some k,
          confidence = (if positionSensitivity (settings st) < computedPositionOffset k f
                      \<or> rotationSensitivity (settings st) < normalizedRotationOf (bf_rotation f) (rf_rotation rf)
                        then max 0 (100 - computedPositionOffset k f / 5
                                    - normalizedRotationOf (bf_rotation f) (rf_rotation rf) * 2)
                        else 100),
          details = Some \<lparr>positionOffset = js_round (computedPositionOffset k f),
                           rotationOffset = js_round (normalizedRotationOf (bf_rotation f) (rf_rotation rf)),
                           positionOk = (computedPositionOffset k f \<le> positionSensitivity (settings st)),
                           rotationOk = (normalizedRotationOf (bf_rotation f) (rf_rotation rf)
                                         \<le> rotationSensitivity (settings st))\<rparr>\<rparr>"
  using assms
  by (simp add: compareWithReference_def Let_def or_zero_id computedPositionOffset_def
      normalizedRotationOf_def not_le)

lemma referenceEngine_fields:
  "keyPointRect referenceEngine = Some \<lparr>rect_x = 40, rect_y = 60, rect_width = 200, rect_height = 200\<rparr>"
  "referenceFeatures referenceEngine =
     Some (extractFeaturesFromAreas 0 None
        \<lparr>rect_x = 40, rect_y = 60, rect_width = 200, rect_height = 200\<rparr> None)"
  "settings referenceEngine = \<lparr>rotationSensitivity = 5, positionSensitivity = 20, detectionThreshold = 50,
                  minContourArea = 1000, maxContourArea = 500000\<rparr>"
  by (simp_all add: referenceEngine_def setReferenceAreas_def newEngine_def Let_def)

text \<open>
  C1. With a reference and a key point area set, for every analysis whose features have
  \<open>hasBox = true\<close>, \<open>compareWithReference\<close> returns a result with \<open>hasAlert = true\<close>
  exactly when the computed position offset exceeds \<open>settings.positionSensitivity\<close> or the
  normalized rotation offset exceeds \<open>settings.rotationSensitivity\<close>. When alerting, the
  confidence is \<open>max(0, 100 - positionOffset / 5 - rotationOffset * 2)\<close>; when both checks
  pass it is 100. The offsets are the computed, unrounded ones. The same holds of version 1.0,
  whose expected centre is that of the reference features.
\<close>

theorem compareWithReference_alert_confidence:
  fixes st :: "Rectangle Engine" and st1 :: "Box Engine"
  shows "(referenceFeatures st = Some rf \<and> keyPointRect st = Some k \<and> hasBox f \<longrightarrow>
          (let positionOffset' = sqrt ((position_x f - rect_width k / 2)\<^sup>2
                                     + (position_y f - rect_height k / 2)\<^sup>2);
               normalizedRotation = min \<bar>bf_rotation f - rf_rotation rf\<bar>
                                        (360 - \<bar>bf_rotation f - rf_rotation rf\<bar>)
           in \<exists>r. compareWithReference st (Some f) rnd1 rnd2 = Inr r
                \<and> (hasAlert r \<longleftrightarrow> positionOffset' > positionSensitivity (settings st)
                                 \<or> normalizedRotation > rotationSensitivity (settings st))
                \<and> (hasAlert r \<longrightarrow>
                     confidence r = max 0 (100 - positionOffset' / 5 - normalizedRotation * 2))
                \<and> (\<not> hasAlert r \<longrightarrow> confidence r = 100)))
       \<and> (referenceFeatures st1 = Some rf1 \<longrightarrow>
          (let positionOffset' = sqrt ((box_centerX b - rf_centerX rf1)\<^sup>2 + (box_centerY b - rf_centerY rf1)\<^sup>2);
               normalizedRotation = min \<bar>box_rotation b - rf_rotation rf1\<bar>
                                        (360 - \<bar>box_rotation b - rf_rotation rf1\<bar>);
               r = compareWithReference_v1 st1 b
           in (hasAlert r \<longleftrightarrow> positionOffset' > positionSensitivity (settings st1)
                                 \<or> normalizedRotation > rotationSensitivity (settings st1))
                \<and> (hasAlert r \<longrightarrow>
                     confidence r = max 0 (100 - positionOffset' / 5 - normalizedRotation * 2))
                \<and> (\<not> hasAlert r \<longrightarrow> confidence r = 100)))"
proof -
  have v2: "referenceFeatures st = Some rf \<and> keyPointRect st = Some k \<and> hasBox f \<longrightarrow>
          (let positionOffset' = sqrt ((position_x f - rect_width k / 2)\<^sup>2
                                     + (position_y f - rect_height k / 2)\<^sup>2);
               normalizedRotation = min \<bar>bf_rotation f - rf_rotation rf\<bar>
                                        (360 - \<bar>bf_rotation f - rf_rotation rf\<bar>)
           in \<exists>r. compareWithReference st (Some f) rnd1 rnd2 = Inr r
                \<and> (hasAlert r \<longleftrightarrow> positionOffset' > positionSensitivity (settings st)
                                 \<or> normalizedRotation > rotationSensitivity (settings st))
                \<and> (hasAlert r \<longrightarrow>
                     confidence r = max 0 (100 - positionOffset' / 5 - normalizedRotation * 2))
                \<and> (\<not> hasAlert r \<longrightarrow> confidence r = 100))"
    by (simp add: compareWithReference_detected computedPositionOffset_def
        normalizedRotationOf_def)
  have v1: "referenceFeatures st1 = Some rf1 \<longrightarrow>
          (let positionOffset' = sqrt ((box_centerX b - rf_centerX rf1)\<^sup>2 + (box_centerY b - rf_centerY rf1)\<^sup>2);
               normalizedRotation = min \<bar>box_rotation b - rf_rotation rf1\<bar>
                                        (360 - \<bar>box_rotation b - rf_rotation rf1\<bar>);
               r = compareWithReference_v1 st1 b
           in (hasAlert r \<longleftrightarrow> positionOffset' > positionSensitivity (settings st1)
                                 \<or> normalizedRotation > rotationSensitivity (settings st1))
                \<and> (hasAlert r \<longrightarrow>
                     confidence r = max 0 (100 - positionOffset' / 5 - normalizedRotation * 2))
                \<and> (\<not> hasAlert r \<longrightarrow> confidence r = 100))"
    by (auto simp: compareWithReference_v1_def Let_def not_le)
  from v2 v1 show ?thesis by (rule conjI)
qed

lemma legacyEngine_fields:
  "referenceFeatures legacyEngine =
     Some (extractFeatures 0 \<lparr>img_width = 200, img_height = 200, img_data = replicate 160000 0\<rparr>)"
  "settings legacyEngine = \<lparr>rotationSensitivity = 5, positionSensitivity = 20, detectionThreshold = 50,
                  minContourArea = 1000, maxContourArea = 500000\<rparr>"
  by (simp_all add: legacyEngine_def setReferenceImage_def newEngine_def Let_def)

lemma sqrt_2500: "sqrt 2500 = 50"
  using real_sqrt_abs [of 50] by simp

theorem compareWithReference_alert_confidence_witness:
  "referenceFeatures referenceEngine =
     Some (extractFeaturesFromAreas 0 None
        \<lparr>rect_x = 40, rect_y = 60, rect_width = 200, rect_height = 200\<rparr> None)
   \<and> keyPointRect referenceEngine =
     Some \<lparr>rect_x = 40, rect_y = 60, rect_width = 200, rect_height = 200\<rparr>
   \<and> hasBox (observedFeatures 150 100 0)
   \<and> (\<exists>r. compareWithReference referenceEngine (Some (observedFeatures 150 100 0)) 0 0 = Inr r
         \<and> hasAlert r \<and> confidence r = 90)
   \<and> referenceFeatures legacyEngine =
     Some (extractFeatures 0 \<lparr>img_width = 200, img_height = 200, img_data = replicate 160000 0\<rparr>)
   \<and> \<not> hasAlert (compareWithReference_v1 legacyEngine (observedBox 100 100 1))
   \<and> confidence (compareWithReference_v1 legacyEngine (observedBox 100 100 1)) = 100"
  using compareWithReference_alert_confidence
    [of referenceEngine
        "extractFeaturesFromAreas 0 None
           \<lparr>rect_x = 40, rect_y = 60, rect_width = 200, rect_height = 200\<rparr> None"
        "\<lparr>rect_x = 40, rect_y = 60, rect_width = 200, rect_height = 200\<rparr>"
        "observedFeatures 150 100 0" 0 0
        legacyEngine
        "extractFeatures 0 \<lparr>img_width = 200, img_height = 200, img_data = replicate 160000 0\<rparr>"
        "observedBox 100 100 1"]
  by (auto simp: referenceEngine_fields legacyEngine_fields observedFeatures_def observedBox_def
      extractFeaturesFromAreas_def extractFeatures_def sqrt_2500 Let_def)

lemma compareWithReference_v1_details:
  assumes "referenceFeatures st1 = Some rf1"
  shows "details (compareWithReference_v1 st1 b) =
     Some \<lparr>positionOffset = js_round (sqrt ((box_centerX b - rf_centerX rf1)\<^sup>2
                                             + (box_centerY b - rf_centerY rf1)\<^sup>2)),
           rotationOffset = js_round (normalizedRotationOf (box_rotation b) (rf_rotation rf1)),
           positionOk = (sqrt ((box_centerX b - rf_centerX rf1)\<^sup>2 + (box_centerY b - rf_centerY rf1)\<^sup>2)
                         \<le> positionSensitivity (settings st1)),
           rotationOk = (normalizedRotationOf (box_rotation b) (rf_rotation rf1)
                         \<le> rotationSensitivity (settings st1))\<rparr>"
  using assms by (simp add: compareWithReference_v1_def Let_def normalizedRotationOf_def)

lemma normalizedRotationOf_example: "js_round (normalizedRotationOf (- 170) 170) = 20"
  by (simp add: normalizedRotationOf_def js_round_def)

text \<open>
  C2. For every reference rotation \<open>r\<close> and observed rotation \<open>o\<close> the comparator computes
  the rotation offset \<open>min(|o - r|, 360 - |o - r|)\<close>: the check \<open>rotationOk\<close> compares it
  with the sensitivity and the reported \<open>details.rotationOffset\<close> is its rounding. For
  reference rotation 170 and observed rotation -170 the offset is 20, not 340. Both versions.
\<close>

theorem rotation_offset_wraparound:
  fixes st :: "Rectangle Engine" and st1 :: "Box Engine"
  shows "(referenceFeatures st = Some rf \<and> keyPointRect st = Some k \<and> hasBox f \<longrightarrow>
          (\<exists>r d. compareWithReference st (Some f) rnd1 rnd2 = Inr r \<and> details r = Some d
             \<and> rotationOffset d = js_round (min \<bar>bf_rotation f - rf_rotation rf\<bar>
                                               (360 - \<bar>bf_rotation f - rf_rotation rf\<bar>))
             \<and> (rotationOk d \<longleftrightarrow> min \<bar>bf_rotation f - rf_rotation rf\<bar>
                                       (360 - \<bar>bf_rotation f - rf_rotation rf\<bar>)
                                   \<le> rotationSensitivity (settings st))
             \<and> (rf_rotation rf = 170 \<and> bf_rotation f = - 170 \<longrightarrow> rotationOffset d = 20)))
       \<and> (referenceFeatures st1 = Some rf1 \<longrightarrow>
          (\<exists>d. details (compareWithReference_v1 st1 b) = Some d
             \<and> rotationOffset d = js_round (min \<bar>box_rotation b - rf_rotation rf1\<bar>
                                               (360 - \<bar>box_rotation b - rf_rotation rf1\<bar>))
             \<and> (rotationOk d \<longleftrightarrow> min \<bar>box_rotation b - rf_rotation rf1\<bar>
                                       (360 - \<bar>box_rotation b - rf_rotation rf1\<bar>)
                                   \<le> rotationSensitivity (settings st1))
             \<and> (rf_rotation rf1 = 170 \<and> box_rotation b = - 170 \<longrightarrow> rotationOffset d = 20)))"
proof (rule conjI)
  show "referenceFeatures st = Some rf \<and> keyPointRect st = Some k \<and> hasBox f \<longrightarrow>
          (\<exists>r d. compareWithReference st (Some f) rnd1 rnd2 = Inr r \<and> details r = Some d
             \<and> rotationOffset d = js_round (min \<bar>bf_rotation f - rf_rotation rf\<bar>
                                               (360 - \<bar>bf_rotation f - rf_rotation rf\<bar>))
             \<and> (rotationOk d \<longleftrightarrow> min \<bar>bf_rotation f - rf_rotation rf\<bar>
                                       (360 - \<bar>bf_rotation f - rf_rotation rf\<bar>)
                                   \<le> rotationSensitivity (settings st))
             \<and> (rf_rotation rf = 170 \<and> bf_rotation f = - 170 \<longrightarrow> rotationOffset d = 20))"
    using normalizedRotationOf_example
    by (auto simp: compareWithReference_detected normalizedRotationOf_def)
next
  show "referenceFeatures st1 = Some rf1 \<longrightarrow>
          (\<exists>d. details (compareWithReference_v1 st1 b) = Some d
             \<and> rotationOffset d = js_round (min \<bar>box_rotation b - rf_rotation rf1\<bar>
                                               (360 - \<bar>box_rotation b - rf_rotation rf1\<bar>))
             \<and> (rotationOk d \<longleftrightarrow> min \<bar>box_rotation b - rf_rotation rf1\<bar>
                                       (360 - \<bar>box_rotation b - rf_rotation rf1\<bar>)
                                   \<le> rotationSensitivity (settings st1))
             \<and> (rf_rotation rf1 = 170 \<and> box_rotation b = - 170 \<longrightarrow> rotationOffset d = 20))"
    using normalizedRotationOf_example
    by (auto simp: compareWithReference_v1_details normalizedRotationOf_def)
qed

theorem rotation_offset_wraparound_witness:
  "(\<exists>rf k. referenceFeatures (rotatedReference referenceEngine) = Some rf
       \<and> keyPointRect (rotatedReference referenceEngine) = Some k
       \<and> hasBox (observedFeatures 100 100 (- 170))
       \<and> rf_rotation rf = 170 \<and> bf_rotation (observedFeatures 100 100 (- 170)) = - 170)
   \<and> (\<exists>r d. compareWithReference (rotatedReference referenceEngine)
               (Some (observedFeatures 100 100 (- 170))) 0 0 = Inr r
         \<and> details r = Some d \<and> rotationOffset d = 20 \<and> \<not> rotationOk d)
   \<and> (\<exists>rf1. referenceFeatures (rotatedReference legacyEngine) = Some rf1
       \<and> rf_rotation rf1 = 170 \<and> box_rotation (observedBox 100 100 (- 170)) = - 170)
   \<and> (\<exists>d. details (compareWithReference_v1 (rotatedReference legacyEngine)
               (observedBox 100 100 (- 170))) = Some d
         \<and> rotationOffset d = 20 \<and> \<not> rotationOk d)"
  using rotation_offset_wraparound
    [of "rotatedReference referenceEngine"
        "(extractFeaturesFromAreas 0 None
           \<lparr>rect_x = 40, rect_y = 60, rect_width = 200, rect_height = 200\<rparr> None)
           \<lparr>rf_rotation := 170\<rparr>"
        "\<lparr>rect_x = 40, rect_y = 60, rect_width = 200, rect_height = 200\<rparr>"
        "observedFeatures 100 100 (- 170)" 0 0
        "rotatedReference legacyEngine"
        "(extractFeatures 0 \<lparr>img_width = 200, img_height = 200, img_data = replicate 160000 0\<rparr>)
           \<lparr>rf_rotation := 170\<rparr>"
        "observedBox 100 100 (- 170)"]
  by (auto simp: rotatedReference_def referenceEngine_fields legacyEngine_fields
      observedFeatures_def observedBox_def)

lemma reimagedEngine_fields:
  "keyPointRect (reimagedEngine w) = Some \<lparr>rect_x = 40, rect_y = 60, rect_width = w, rect_height = 200\<rparr>"
  "referenceFeatures (reimagedEngine w) =
     Some (extractFeatures 0 \<lparr>img_width = 200, img_height = 200, img_data = replicate 160000 0\<rparr>)"
  "settings (reimagedEngine w) = \<lparr>rotationSensitivity = 5, positionSensitivity = 20, detectionThreshold = 50,
                  minContourArea = 1000, maxContourArea = 500000\<rparr>"
  by (simp_all add: reimagedEngine_def setReferenceImage_def setReferenceAreas_def newEngine_def Let_def)

text \<open>
  C10, as stated, fails: two engines with equal stored reference features and equal settings
  may hold different key point areas, which \<open>compareWithReference\<close> reads for the expected
  centre and for the \<open>box\<close> of its result. After \<open>setReferenceAreas\<close> with a key point area
  of width 200 or of width 300 and then \<open>setReferenceImage\<close> with the same image, the same
  analysis with \<open>hasBox = true\<close> and the same random numbers give a result without alert
  and confidence 100 on the first engine, and an alert with confidence 90 on the second.
\<close>

theorem compareWithReference_depends_on_keyPointRect:
  "referenceFeatures (reimagedEngine 200) = referenceFeatures (reimagedEngine 300)
   \<and> settings (reimagedEngine 200) = settings (reimagedEngine 300)
   \<and> hasBox (observedFeatures 100 100 0)
   \<and> compareWithReference (reimagedEngine 200) (Some (observedFeatures 100 100 0)) 0 0
       = Inr \<lparr>hasAlert = False, message = BoxInCorrectPosition,
              box = Some \<lparr>rect_x = 40, rect_y = 60, rect_width = 200, rect_height = 200\<rparr>,
              confidence = 100,
              details = Some \<lparr>positionOffset = 0, rotationOffset = 0,
                               positionOk = True, rotationOk = True\<rparr>\<rparr>
   \<and> compareWithReference (reimagedEngine 300) (Some (observedFeatures 100 100 0)) 0 0
       = Inr \<lparr>hasAlert = True, message = Issues [PositionShifted 50],
              box = Some \<lparr>rect_x = 40, rect_y = 60, rect_width = 300, rect_height = 200\<rparr>,
              confidence = 90,
              details = Some \<lparr>positionOffset = 50, rotationOffset = 0,
                               positionOk = False, rotationOk = True\<rparr>\<rparr>"
proof -
  have hb: "hasBox (observedFeatures 100 100 0)" by (simp add: observedFeatures_def)
  have a: "compareWithReference (reimagedEngine 200) (Some (observedFeatures 100 100 0)) 0 0
       = Inr \<lparr>hasAlert = False, message = BoxInCorrectPosition,
              box = Some \<lparr>rect_x = 40, rect_y = 60, rect_width = 200, rect_height = 200\<rparr>,
              confidence = 100,
              details = Some \<lparr>positionOffset = 0, rotationOffset = 0,
                               positionOk = True, rotationOk = True\<rparr>\<rparr>"
    by (subst compareWithReference_detected [OF reimagedEngine_fields(2) reimagedEngine_fields(1) hb])
       (simp add: reimagedEngine_fields computedPositionOffset_def normalizedRotationOf_def
          observedFeatures_def extractFeatures_def js_round_def)
  have b: "compareWithReference (reimagedEngine 300) (Some (observedFeatures 100 100 0)) 0 0
       = Inr \<lparr>hasAlert = True, message = Issues [PositionShifted 50],
              box = Some \<lparr>rect_x = 40, rect_y = 60, rect_width = 300, rect_height = 200\<rparr>,
              confidence = 90,
              details = Some \<lparr>positionOffset = 50, rotationOffset = 0,
                               positionOk = False, rotationOk = True\<rparr>\<rparr>"
    by (subst compareWithReference_detected [OF reimagedEngine_fields(2) reimagedEngine_fields(1) hb])
       (simp add: reimagedEngine_fields computedPositionOffset_def normalizedRotationOf_def
          observedFeatures_def extractFeatures_def js_round_def sqrt_2500)
  show ?thesis using hb a b by (simp add: reimagedEngine_fields)
qed

text \<open>
  C10, amended. \<open>compareWithReference\<close> is deterministic on the path of a detected box:
  two calls with equal analysis features having \<open>hasBox = true\<close>, on engines with equal
  stored reference features, equal key point area \<open>keyPointRect\<close> and equal settings,
  return equal results, whatever \<open>Math.random()\<close> would return. The restriction to
  \<open>hasBox = true\<close> is essential: with a reference set and no detected box, the draws 0 and
  1/2 give different results.
\<close>

theorem compareWithReference_deterministic_with_box:
  fixes st st' :: "Rectangle Engine"
  shows "(referenceFeatures st = referenceFeatures st' \<and> keyPointRect st = keyPointRect st'
          \<and> settings st = settings st' \<and> hasBox f \<longrightarrow>
            compareWithReference st (Some f) rnd1 rnd2 = compareWithReference st' (Some f) rnd1' rnd2')
       \<and> (referenceFeatures st \<noteq> None \<and> \<not> hasBox g \<longrightarrow>
            compareWithReference st (Some g) 0 rnd2 \<noteq> compareWithReference st (Some g) (1 / 2) rnd2
          \<and> compareWithReference st None 0 rnd2 \<noteq> compareWithReference st None (1 / 2) rnd2)"
proof (rule conjI)
  show "referenceFeatures st = referenceFeatures st' \<and> keyPointRect st = keyPointRect st'
          \<and> settings st = settings st' \<and> hasBox f \<longrightarrow>
            compareWithReference st (Some f) rnd1 rnd2 = compareWithReference st' (Some f) rnd1' rnd2'"
  proof (intro impI, elim conjE)
    assume rf: "referenceFeatures st = referenceFeatures st'"
      and kp: "keyPointRect st = keyPointRect st'"
      and se: "settings st = settings st'"
      and hb: "hasBox f"
    show "compareWithReference st (Some f) rnd1 rnd2 = compareWithReference st' (Some f) rnd1' rnd2'"
    proof (cases "referenceFeatures st'")
      case None
      then show ?thesis using rf kp by (simp add: compareWithReference_def)
    next
      case (Some r)
      note ref = this
      show ?thesis
      proof (cases "keyPointRect st'")
        case None
        then show ?thesis using rf kp ref hb by (simp add: compareWithReference_def)
      next
        case (Some k)
        have "compareWithReference st (Some f) rnd1 rnd2
              = compareWithReference st (Some f) rnd1' rnd2'"
          using rf kp ref Some hb by (simp add: compareWithReference_detected)
        also have "\<dots> = compareWithReference st' (Some f) rnd1' rnd2'"
          using rf kp se ref Some hb by (simp add: compareWithReference_detected)
        finally show ?thesis .
      qed
    qed
  qed
next
  show "referenceFeatures st \<noteq> None \<and> \<not> hasBox g \<longrightarrow>
            compareWithReference st (Some g) 0 rnd2 \<noteq> compareWithReference st (Some g) (1 / 2) rnd2
          \<and> compareWithReference st None 0 rnd2 \<noteq> compareWithReference st None (1 / 2) rnd2"
    by (auto simp: compareWithReference_def Let_def)
qed

theorem compareWithReference_deterministic_with_box_witness:
  "referenceFeatures referenceEngine = referenceFeatures (updateSettings
       \<lparr>new_rotationSensitivity = Some 5, new_positionSensitivity = None,
        new_detectionThreshold = None, new_minContourArea = None, new_maxContourArea = None\<rparr>
       (referenceEngine\<lparr>lastDetection := None\<rparr>))
   \<and> keyPointRect referenceEngine = keyPointRect (updateSettings
       \<lparr>new_rotationSensitivity = Some 5, new_positionSensitivity = None,
        new_detectionThreshold = None, new_minContourArea = None, new_maxContourArea = None\<rparr>
       (referenceEngine\<lparr>lastDetection := None\<rparr>))
   \<and> settings referenceEngine = settings (updateSettings
       \<lparr>new_rotationSensitivity = Some 5, new_positionSensitivity = None,
        new_detectionThreshold = None, new_minContourArea = None, new_maxContourArea = None\<rparr>
       (referenceEngine\<lparr>lastDetection := None\<rparr>))
   \<and> hasBox (observedFeatures 150 100 0)
   \<and> compareWithReference referenceEngine (Some (observedFeatures 150 100 0)) 0 0
     = compareWithReference (updateSettings
       \<lparr>new_rotationSensitivity = Some 5, new_positionSensitivity = None,
        new_detectionThreshold = None, new_minContourArea = None, new_maxContourArea = None\<rparr>
       (referenceEngine\<lparr>lastDetection := None\<rparr>)) (Some (observedFeatures 150 100 0)) (1 / 2) (1 / 3)
   \<and> referenceFeatures referenceEngine \<noteq> None \<and> \<not> hasBox noBoxFeatures
   \<and> compareWithReference referenceEngine (Some noBoxFeatures) 0 0
       \<noteq> compareWithReference referenceEngine (Some noBoxFeatures) (1 / 2) 0"
  using compareWithReference_deterministic_with_box
    [of referenceEngine "updateSettings
       \<lparr>new_rotationSensitivity = Some 5, new_positionSensitivity = None,
        new_detectionThreshold = None, new_minContourArea = None, new_maxContourArea = None\<rparr>
       (referenceEngine\<lparr>lastDetection := None\<rparr>)" "observedFeatures 150 100 0" 0 0 "1 / 2" "1 / 3"
       noBoxFeatures]
  by (simp add: referenceEngine_fields updateSettings_def mergeSettings_def
      observedFeatures_def noBoxFeatures_def)

section \<open>Properties of the extraction of the region\<close>

lemma clampRect_bounds:
  "0 \<le> px_x (clampRect frameData r) \<and> 0 \<le> px_y (clampRect frameData r)
   \<and> px_x (clampRect frameData r) + px_width (clampRect frameData r) \<le> int (fd_width frameData)
   \<and> px_y (clampRect frameData r) + px_height (clampRect frameData r) \<le> int (fd_height frameData)"
  by (simp add: clampRect_def Let_def min_def max_def)

lemma clampRect_width_zero:
  "px_width (clampRect frameData r) = 0 \<longleftrightarrow> fd_width frameData = 0 \<and> 0 \<le> px_width r \<or> px_width r = 0"
  by (auto simp: clampRect_def Let_def min_def max_def)

lemma clampRect_height_zero:
  "px_height (clampRect frameData r) = 0 \<longleftrightarrow> fd_height frameData = 0 \<and> 0 \<le> px_height r \<or> px_height r = 0"
  by (auto simp: clampRect_def Let_def min_def max_def)

lemma canvasDimension_zero: "canvasDimension (Suc d) v = 0 \<longleftrightarrow> v = 0"
  by (auto simp: canvasDimension_def)

lemma extractROI_Some:
  assumes "extractROI frameData (Some rect) = Some roi" and "fd_imageData frameData = Some img"
  shows "originalRect roi = clampRect frameData (scaleRect frameData img rect)"
  using assms
  by (auto simp: extractROI_def extractROIBody_def Let_def split: if_splits)

lemma extractROI_size:
  assumes "extractROI frameData (Some rect) = Some roi"
  shows "roi_width roi = canvasDimension 300 (px_width (originalRect roi))
       \<and> roi_height roi = canvasDimension 150 (px_height (originalRect roi))"
  using assms
  by (auto simp: extractROI_def extractROIBody_def Let_def split: if_splits option.splits)

lemma extractROI_None:
  assumes "fd_imageData frameData = Some img" and "genuineImageData img"
  shows "extractROI frameData (Some rect) = None \<longleftrightarrow>
         fd_width frameData = 0 \<or> fd_height frameData = 0
         \<or> px_width (scaleRect frameData img rect) = 0 \<or> px_height (scaleRect frameData img rect) = 0"
proof -
  have d300: "\<And>v. canvasDimension 300 v = 0 \<longleftrightarrow> v = 0"
    using canvasDimension_zero [of 299] by simp
  have d150: "\<And>v. canvasDimension 150 v = 0 \<longleftrightarrow> v = 0"
    using canvasDimension_zero [of 149] by simp
  show ?thesis
    using assms
    by (auto simp: extractROI_def extractROIBody_def Let_def d300 d150
        clampRect_width_zero clampRect_height_zero)
qed

lemma plainFrame_genuine:
  "fd_imageData plainFrame = Some \<lparr>img_width = 10, img_height = 10, img_data = replicate 400 0\<rparr>"
  "genuineImageData \<lparr>img_width = 10, img_height = 10, img_data = replicate 400 0\<rparr>"
  by (simp_all add: plainFrame_def genuineImageData_def)

text \<open>
  C3, as stated, fails: on the frame of 10 by 10 pixels the rectangle at (2, 2) of width and
  height one half has a non-empty intersection with the frame, and \<open>extractROI\<close> fails, since
  the floor of its width is 0 and \<open>getImageData\<close> throws on a zero width.
\<close>

theorem extractROI_fails_on_thin_rectangle:
  "extractROI plainFrame (Some thinRect) = None
   \<and> overlapsFrame plainFrame \<lparr>img_width = 10, img_height = 10, img_data = replicate 400 0\<rparr> thinRect
   \<and> rectsIntersect thinRect \<lparr>rect_x = 0, rect_y = 0, rect_width = 10, rect_height = 10\<rparr>"
  by (simp add: extractROI_def extractROIBody_def plainFrame_def thinRect_def scaleRect_def
      clampRect_def canvasDimension_def genuineImageData_def overlapsFrame_def
      rectsIntersect_def Let_def)

text \<open>
  C3, amended. For every frame of size W by H with pixel data and every rectangle, inside
  the frame or not, a region that \<open>extractROI\<close> returns has bounds within the frame
  (\<open>0 \<le> x\<close>, \<open>0 \<le> y\<close>, \<open>x + width \<le> W\<close>, \<open>y + height \<le> H\<close>) and no zero side, and
  the returned image has the size of these bounds where they are positive; and
  \<open>extractROI\<close> fails exactly when the frame has a zero side or the rectangle, scaled to the
  frame and rounded down to whole pixels, has width 0 or height 0.
\<close>

theorem extractROI_within_frame:
  assumes "fd_imageData frameData = Some img" and "genuineImageData img"
  shows "(\<forall>roi. extractROI frameData (Some rect) = Some roi \<longrightarrow>
            0 \<le> px_x (originalRect roi) \<and> 0 \<le> px_y (originalRect roi)
          \<and> px_x (originalRect roi) + px_width (originalRect roi) \<le> int (fd_width frameData)
          \<and> px_y (originalRect roi) + px_height (originalRect roi) \<le> int (fd_height frameData)
          \<and> px_width (originalRect roi) \<noteq> 0 \<and> px_height (originalRect roi) \<noteq> 0
          \<and> (0 < px_width (originalRect roi) \<and> px_width (originalRect roi) \<le> 2147483647 \<longrightarrow>
               int (roi_width roi) = px_width (originalRect roi))
          \<and> (0 < px_height (originalRect roi) \<and> px_height (originalRect roi) \<le> 2147483647 \<longrightarrow>
               int (roi_height roi) = px_height (originalRect roi)))
       \<and> (extractROI frameData (Some rect) = None \<longleftrightarrow>
            fd_width frameData = 0 \<or> fd_height frameData = 0
          \<or> \<lfloor>rect_width rect * (real (fd_width frameData) / real (img_width img))\<rfloor> = 0
          \<or> \<lfloor>rect_height rect * (real (fd_height frameData) / real (img_height img))\<rfloor> = 0)"
proof (intro conjI allI impI)
  fix roi assume some: "extractROI frameData (Some rect) = Some roi"
  then have o: "originalRect roi = clampRect frameData (scaleRect frameData img rect)"
    using assms(1) by (rule extractROI_Some)
  show "0 \<le> px_x (originalRect roi)" "0 \<le> px_y (originalRect roi)"
    "px_x (originalRect roi) + px_width (originalRect roi) \<le> int (fd_width frameData)"
    "px_y (originalRect roi) + px_height (originalRect roi) \<le> int (fd_height frameData)"
    using clampRect_bounds [of frameData "scaleRect frameData img rect"] by (simp_all add: o)
  have "extractROI frameData (Some rect) \<noteq> None" using some by simp
  then have nz: "fd_width frameData \<noteq> 0" "fd_height frameData \<noteq> 0"
    "px_width (scaleRect frameData img rect) \<noteq> 0" "px_height (scaleRect frameData img rect) \<noteq> 0"
    using extractROI_None [OF assms, of rect] by auto
  show "px_width (originalRect roi) \<noteq> 0" "px_height (originalRect roi) \<noteq> 0"
    using nz by (simp_all add: o clampRect_width_zero clampRect_height_zero)
  assume "0 < px_width (originalRect roi) \<and> px_width (originalRect roi) \<le> 2147483647"
  then show "int (roi_width roi) = px_width (originalRect roi)"
    using extractROI_size [OF some] by (simp add: canvasDimension_def)
next
  fix roi assume some: "extractROI frameData (Some rect) = Some roi"
  assume "0 < px_height (originalRect roi) \<and> px_height (originalRect roi) \<le> 2147483647"
  then show "int (roi_height roi) = px_height (originalRect roi)"
    using extractROI_size [OF some] by (simp add: canvasDimension_def)
next
  show "extractROI frameData (Some rect) = None \<longleftrightarrow>
            fd_width frameData = 0 \<or> fd_height frameData = 0
          \<or> \<lfloor>rect_width rect * (real (fd_width frameData) / real (img_width img))\<rfloor> = 0
          \<or> \<lfloor>rect_height rect * (real (fd_height frameData) / real (img_height img))\<rfloor> = 0"
    using extractROI_None [OF assms, of rect] by (simp add: scaleRect_def Let_def)
qed

theorem extractROI_within_frame_witness:
  "fd_imageData plainFrame = Some \<lparr>img_width = 10, img_height = 10, img_data = replicate 400 0\<rparr>
   \<and> genuineImageData \<lparr>img_width = 10, img_height = 10, img_data = replicate 400 0\<rparr>
   \<and> (\<exists>roi. extractROI plainFrame (Some outsideRect) = Some roi
         \<and> originalRect roi = \<lparr>px_x = 0, px_y = 7, px_width = 8, px_height = 3\<rparr>
         \<and> px_x (originalRect roi) + px_width (originalRect roi) \<le> int (fd_width plainFrame)
         \<and> px_y (originalRect roi) + px_height (originalRect roi) \<le> int (fd_height plainFrame)
         \<and> roi_width roi = 8 \<and> roi_height roi = 3)
   \<and> extractROI plainFrame (Some thinRect) = None"
proof -
  note w = extractROI_within_frame [OF plainFrame_genuine]
  have "extractROI plainFrame (Some outsideRect) \<noteq> None"
    using w [of outsideRect] by (simp add: plainFrame_def outsideRect_def)
  then obtain roi where some: "extractROI plainFrame (Some outsideRect) = Some roi" by blast
  have orig: "originalRect roi = \<lparr>px_x = 0, px_y = 7, px_width = 8, px_height = 3\<rparr>"
    using extractROI_Some [OF some plainFrame_genuine(1)]
    by (simp add: clampRect_def scaleRect_def plainFrame_def outsideRect_def Let_def)
  have "roi_width roi = 8" "roi_height roi = 3"
    using w [of outsideRect] some orig by simp_all
  moreover note orig
  moreover have "px_x (originalRect roi) + px_width (originalRect roi) \<le> int (fd_width plainFrame)"
    "px_y (originalRect roi) + px_height (originalRect roi) \<le> int (fd_height plainFrame)"
    using w [of outsideRect] some by simp_all
  moreover have "extractROI plainFrame (Some thinRect) = None"
    using w [of thinRect] by (simp add: plainFrame_def thinRect_def)
  ultimately show ?thesis using some plainFrame_genuine by blast
qed

section \<open>Properties of the Gaussian blur\<close>

lemma blurStep_length: "length (blurStep data width kern out p) = length out"
  by (cases p) (simp add: blurStep_def Let_def)

lemma foldl_blurStep_length:
  "length (foldl (blurStep data width kern) out ps) = length out"
  by (induction ps arbitrary: out) (simp_all add: blurStep_length)

lemma blurStep_other:
  "i div 4 \<noteq> snd p * width + fst p \<Longrightarrow> blurStep data width kern out p ! i = out ! i"
  by (cases p) (auto simp: blurStep_def Let_def nth_list_update)

lemma blurStep_here:
  assumes "(y * width + x) * 4 + 3 < length out" and "c < 4"
  shows "blurStep data width kern out (x, y) ! ((y * width + x) * 4 + c)
         = (if c = 3 then data ! ((y * width + x) * 4 + 3) else blurValue data width kern x y)"
proof -
  from \<open>c < 4\<close> consider "c = 0" | "c = 1" | "c = 2" | "c = 3" by linarith
  then show ?thesis
    using assms(1) by cases (simp_all add: blurStep_def Let_def)
qed

lemma foldl_blurStep_other:
  "\<forall>p \<in> set ps. i div 4 \<noteq> snd p * width + fst p \<Longrightarrow>
   foldl (blurStep data width kern) out ps ! i = out ! i"
  by (induction ps arbitrary: out) (simp_all add: blurStep_other)

lemma foldl_blurStep_here:
  assumes "(x, y) \<in> set ps"
    and "\<forall>p \<in> set ps. snd p * width + fst p = y * width + x \<longrightarrow> p = (x, y)"
    and "(y * width + x) * 4 + 3 < length out" and "c < 4"
  shows "foldl (blurStep data width kern) out ps ! ((y * width + x) * 4 + c)
         = (if c = 3 then data ! ((y * width + x) * 4 + 3) else blurValue data width kern x y)"
  using assms(1,2)
proof (induction ps rule: rev_induct)
  case Nil
  then show ?case by simp
next
  case (snoc p ps)
  let ?out = "foldl (blurStep data width kern) out ps"
  have len: "(y * width + x) * 4 + 3 < length ?out"
    using assms(3) by (simp add: foldl_blurStep_length)
  show ?case
  proof (cases "p = (x, y)")
    case True
    then show ?thesis using blurStep_here [OF len \<open>c < 4\<close>]
      by (simp only: foldl_append foldl_Cons foldl_Nil)
  next
    case False
    then have ne: "snd p * width + fst p \<noteq> y * width + x" using snoc.prems(2) by auto
    have "((y * width + x) * 4 + c) div 4 = y * width + x" using \<open>c < 4\<close> by simp
    then have same: "blurStep data width kern ?out p ! ((y * width + x) * 4 + c)
                     = ?out ! ((y * width + x) * 4 + c)"
      using ne by (simp add: blurStep_other)
    have "(x, y) \<in> set ps" using snoc.prems(1) False by auto
    moreover have "\<forall>p \<in> set ps. snd p * width + fst p = y * width + x \<longrightarrow> p = (x, y)"
      using snoc.prems(2) by auto
    ultimately have "?out ! ((y * width + x) * 4 + c)
         = (if c = 3 then data ! ((y * width + x) * 4 + 3) else blurValue data width kern x y)"
      by (rule snoc.IH)
    then show ?thesis using same by (simp only: foldl_append foldl_Cons foldl_Nil)
  qed
qed

lemma interiorOrder_set:
  "(x, y) \<in> set (interiorOrder width height half)
   \<longleftrightarrow> half \<le> x \<and> x < width - half \<and> half \<le> y \<and> y < height - half"
  by (auto simp: interiorOrder_def image_iff)

lemma pixel_index_inj:
  fixes x y x' y' width :: nat
  assumes "x < width" and "x' < width" and "y' * width + x' = y * width + x"
  shows "x' = x \<and> y' = y"
proof -
  have "(y' * width + x') mod width = x'" "(y * width + x) mod width = x"
    using assms(1,2) by simp_all
  moreover have "(y' * width + x') div width = y'" "(y * width + x) div width = y"
    using assms(1,2) by simp_all
  ultimately show ?thesis using assms(3) by metis
qed

lemma createGaussianKernel_length: "length (createGaussianKernel radius) = radius * 2 + 1"
  by (simp add: createGaussianKernel_def Let_def)

lemma pixel_index_bound:
  fixes x y width height :: nat
  assumes "x < width" and "y < height"
  shows "y * width + x < width * height"
proof -
  have "y * width + x < (y + 1) * width" using assms(1) by simp
  also have "\<dots> \<le> height * width" using assms(2) by (intro mult_le_mono1) simp
  finally show ?thesis by (simp add: mult.commute)
qed

lemma blur_output_pixel:
  assumes len: "length data = 4 * width * height"
    and x: "x < width" and y: "y < height" and c: "c < 4"
  shows "foldl (blurStep data width kern) (replicate (length data) 0)
           (interiorOrder width height half) ! ((y * width + x) * 4 + c)
         = (if x < half \<or> width \<le> x + half \<or> y < half \<or> height \<le> y + half then 0
            else if c = 3 then data ! ((y * width + x) * 4 + 3)
            else blurValue data width kern x y)"
proof -
  let ?i = "(y * width + x) * 4 + c"
  have idx: "y * width + x < width * height" using x y by (rule pixel_index_bound)
  then have inside: "(y * width + x) * 4 + 3 < length data" using len by simp
  then have i_in: "?i < length data" using c by simp
  have inj: "\<forall>p \<in> set (interiorOrder width height half).
               snd p * width + fst p = y * width + x \<longrightarrow> p = (x, y)"
  proof (intro ballI impI)
    fix p assume p: "p \<in> set (interiorOrder width height half)"
      and eq: "snd p * width + fst p = y * width + x"
    obtain x' y' where xy: "p = (x', y')" by (cases p)
    have "x' < width - half" using p by (simp add: xy interiorOrder_set)
    then have "x' < width" by simp
    then have "x' = x \<and> y' = y" using x eq by (intro pixel_index_inj) (simp_all add: xy)
    then show "p = (x, y)" by (simp add: xy)
  qed
  show ?thesis
  proof (cases "x < half \<or> width \<le> x + half \<or> y < half \<or> height \<le> y + half")
    case True
    then have notin: "(x, y) \<notin> set (interiorOrder width height half)"
      by (auto simp: interiorOrder_set)
    have "?i div 4 = y * width + x" using c by simp
    then have "\<forall>p \<in> set (interiorOrder width height half). ?i div 4 \<noteq> snd p * width + fst p"
      using inj notin by metis
    then have "foldl (blurStep data width kern) (replicate (length data) 0)
                 (interiorOrder width height half) ! ?i = replicate (length data) 0 ! ?i"
      by (rule foldl_blurStep_other)
    then show ?thesis using True i_in by simp
  next
    case False
    then have "(x, y) \<in> set (interiorOrder width height half)"
      by (auto simp: interiorOrder_set)
    moreover have "(y * width + x) * 4 + 3 < length (replicate (length data) (0::nat))"
      using inside by simp
    ultimately have "foldl (blurStep data width kern) (replicate (length data) 0)
           (interiorOrder width height half) ! ?i
         = (if c = 3 then data ! ((y * width + x) * 4 + 3) else blurValue data width kern x y)"
      using inj c by (intro foldl_blurStep_here)
    then show ?thesis using False by simp
  qed
qed

lemma applyGaussianBlur_result:
  assumes "length (img_data imageData) = 4 * img_width imageData * img_height imageData"
    and "0 < img_width imageData" and "0 < img_height imageData"
  shows "applyGaussianBlur imageData radius =
     Inr \<lparr>img_width = img_width imageData, img_height = img_height imageData,
          img_data = foldl (blurStep (img_data imageData) (img_width imageData) (createGaussianKernel radius))
                       (replicate (length (img_data imageData)) 0)
                       (interiorOrder (img_width imageData) (img_height imageData) radius)\<rparr>"
proof -
  have "0 < img_width imageData * img_height imageData" using assms(2,3) by simp
  then have "0 < length (img_data imageData)" using assms(1) by simp
  then have "img_data imageData \<noteq> []" by simp
  then show ?thesis
    using assms
    by (simp add: applyGaussianBlur_def Let_def newImageData_def foldl_blurStep_length
        createGaussianKernel_length)
qed

text \<open>
  C6, as stated, fails: blurring the grey patch of 2 by 2 pixels with radius 1, where every
  pixel lies within the radius of an edge, gives an image of zeros, not a copy of the input.
\<close>

theorem applyGaussianBlur_border_not_copied:
  "applyGaussianBlur smallPatch 1 =
     Inr \<lparr>img_width = 2, img_height = 2,
          img_data = [0, 0, 0, 0, 0, 0, 0, 0, 0, 0, 0, 0, 0, 0, 0, 0]\<rparr>
   \<and> img_data smallPatch = [200, 200, 200, 255, 200, 200, 200, 255,
                             200, 200, 200, 255, 200, 200, 200, 255]"
  by (simp add: applyGaussianBlur_def smallPatch_def Let_def createGaussianKernel_length
      interiorOrder_def newImageData_def)

text \<open>
  C6, amended. For every image (an \<open>ImageData\<close>, which holds four bytes for each of its
  \<open>width * height\<close> pixels) and every blur radius, the Gaussian blur leaves the border pixels
  unprocessed: every output pixel whose row or column lies within the radius of an image edge
  is zero in all four channels, as the new output array was; only an interior pixel receives
  the normalized convolution in its three colour channels and the alpha value of the input.
\<close>

theorem applyGaussianBlur_border_zero:
  assumes "length (img_data imageData) = 4 * img_width imageData * img_height imageData"
    and "0 < img_width imageData" and "0 < img_height imageData"
  shows "\<exists>blurred. applyGaussianBlur imageData radius = Inr blurred
     \<and> img_width blurred = img_width imageData \<and> img_height blurred = img_height imageData
     \<and> length (img_data blurred) = length (img_data imageData)
     \<and> (\<forall>x y c. x < img_width imageData \<and> y < img_height imageData \<and> c < 4 \<longrightarrow>
          img_data blurred ! ((y * img_width imageData + x) * 4 + c)
          = (if x < radius \<or> img_width imageData \<le> x + radius
                \<or> y < radius \<or> img_height imageData \<le> y + radius
             then 0
             else if c = 3 then img_data imageData ! ((y * img_width imageData + x) * 4 + 3)
             else blurValue (img_data imageData) (img_width imageData)
                    (createGaussianKernel radius) x y))"
proof -
  let ?out = "foldl (blurStep (img_data imageData) (img_width imageData) (createGaussianKernel radius))
                (replicate (length (img_data imageData)) 0)
                (interiorOrder (img_width imageData) (img_height imageData) radius)"
  let ?blurred = "\<lparr>img_width = img_width imageData, img_height = img_height imageData,
                   img_data = ?out\<rparr>"
  have r: "applyGaussianBlur imageData radius = Inr ?blurred"
    using assms by (rule applyGaussianBlur_result)
  have px: "\<forall>x y c. x < img_width imageData \<and> y < img_height imageData \<and> c < 4 \<longrightarrow>
          ?out ! ((y * img_width imageData + x) * 4 + c)
          = (if x < radius \<or> img_width imageData \<le> x + radius
                \<or> y < radius \<or> img_height imageData \<le> y + radius
             then 0
             else if c = 3 then img_data imageData ! ((y * img_width imageData + x) * 4 + 3)
             else blurValue (img_data imageData) (img_width imageData)
                    (createGaussianKernel radius) x y)"
    using blur_output_pixel [OF assms(1)] by blast
  have "img_width ?blurred = img_width imageData" "img_height ?blurred = img_height imageData"
    "length (img_data ?blurred) = length (img_data imageData)" "img_data ?blurred = ?out"
    by (simp_all add: foldl_blurStep_length)
  with r px show ?thesis by (intro exI [of _ ?blurred]) (simp only: simp_thms)
qed

lemma greyPatch_wf:
  "length (img_data greyPatch) = 4 * img_width greyPatch * img_height greyPatch"
  "0 < img_width greyPatch" "0 < img_height greyPatch"
  by (simp_all add: greyPatch_def)

theorem applyGaussianBlur_border_zero_witness:
  "length (img_data greyPatch) = 4 * img_width greyPatch * img_height greyPatch
   \<and> 0 < img_width greyPatch \<and> 0 < img_height greyPatch
   \<and> (\<exists>blurred. applyGaussianBlur greyPatch 1 = Inr blurred
        \<and> img_data blurred ! 0 = 0
        \<and> img_data blurred ! 16 = blurValue (img_data greyPatch) 3 (createGaussianKernel 1) 1 1
        \<and> img_data blurred ! 19 = 255)"
proof -
  from applyGaussianBlur_border_zero [OF greyPatch_wf, of 1]
  obtain blurred where b: "applyGaussianBlur greyPatch 1 = Inr blurred"
    and px: "\<forall>x y c. x < img_width greyPatch \<and> y < img_height greyPatch \<and> c < 4 \<longrightarrow>
          img_data blurred ! ((y * img_width greyPatch + x) * 4 + c)
          = (if x < 1 \<or> img_width greyPatch \<le> x + 1 \<or> y < 1 \<or> img_height greyPatch \<le> y + 1
             then 0
             else if c = 3 then img_data greyPatch ! ((y * img_width greyPatch + x) * 4 + 3)
             else blurValue (img_data greyPatch) (img_width greyPatch)
                    (createGaussianKernel 1) x y)"
    by blast
  have "img_data blurred ! 0 = 0" using px [rule_format, of 0 0 0] by (simp add: greyPatch_def)
  moreover have "img_data blurred ! 16 = blurValue (img_data greyPatch) 3 (createGaussianKernel 1) 1 1"
    using px [rule_format, of 1 1 0] by (simp add: greyPatch_def)
  moreover have "img_data blurred ! 19 = 255"
    using px [rule_format, of 1 1 3] by (simp add: greyPatch_def)
  ultimately show ?thesis using b greyPatch_wf by blast
qed

section \<open>Properties of the contour extraction\<close>

lemma traceLoop_bound:
  "length contour \<le> 1000 \<Longrightarrow> length (fst (traceLoop data width height stack contour visited)) \<le> 1000"
  by (induction data width height stack contour visited rule: traceLoop.induct) auto

text \<open>
  C8. For every edge image, every starting pixel and every array \<open>visited\<close>, the stack-based
  traversal \<open>traceContour\<close> terminates (the function is total: each iteration either adds a
  point to a contour of fewer than 1000 points or shortens the stack) and the contour it
  returns has at most 1000 points.
\<close>

theorem traceContour_at_most_1000:
  "\<exists>contour visited'.
     traceContour data width height startX startY visited = (contour, visited')
     \<and> length contour \<le> 1000"
proof -
  obtain contour visited'
    where r: "traceContour data width height startX startY visited = (contour, visited')"
    by (cases "traceContour data width height startX startY visited")
  have "length (fst (traceLoop data width height [(startX, startY)] [] visited)) \<le> 1000"
    by (rule traceLoop_bound) simp
  then have "length contour \<le> 1000" using r by (simp add: traceContour_def)
  then show ?thesis using r by blast
qed

lemma steps_agree:
  "foldl (findContoursStep data width height) (filter (\<lambda>c. length c > 20) regions, visited) ps
   = (filter (\<lambda>c. length c > 20) (fst (foldl (tracedRegionsStep data width height) (regions, visited) ps)),
      snd (foldl (tracedRegionsStep data width height) (regions, visited) ps))"
proof (induction ps arbitrary: regions visited)
  case Nil
  then show ?case by simp
next
  case (Cons p ps)
  obtain x y where p: "p = (x, y)" by (cases p)
  show ?case
  proof (cases "\<not> visitedAt visited (y * width + x) \<and> strongEdge data ((y * width + x) * 4)")
    case True
    obtain c v where t: "traceContour data width height (int x) (int y) visited = (c, v)"
      by (cases "traceContour data width height (int x) (int y) visited")
    have a: "findContoursStep data width height (filter (\<lambda>c. length c > 20) regions, visited) p
             = (filter (\<lambda>c. length c > 20) (regions @ [c]), v)"
      using True t by (simp add: findContoursStep_def p)
    have b: "tracedRegionsStep data width height (regions, visited) p = (regions @ [c], v)"
      using True t by (simp add: tracedRegionsStep_def p)
    show ?thesis
      using Cons.IH [of "regions @ [c]" v] by (simp only: foldl_Cons a b)
  next
    case False
    have a: "findContoursStep data width height (filter (\<lambda>c. length c > 20) regions, visited) p
             = (filter (\<lambda>c. length c > 20) regions, visited)"
      using False by (auto simp: findContoursStep_def p)
    have b: "tracedRegionsStep data width height (regions, visited) p = (regions, visited)"
      using False by (auto simp: tracedRegionsStep_def p)
    show ?thesis
      using Cons.IH [of regions visited] by (simp only: foldl_Cons a b)
  qed
qed

lemma findContours_filter:
  "findContours edgeData = filter (\<lambda>c. length c > 20) (tracedRegions edgeData)"
  using steps_agree [of "img_data edgeData" "img_width edgeData" "img_height edgeData" "[]"]
  by (simp add: findContours_def tracedRegions_def Let_def)

lemma tracedRegions_strongLine:
  "tracedRegions strongLine = [[(0, 0), (1, 0), (2, 0), (3, 0), (4, 0), (5, 0), (6, 0), (7, 0), (8, 0), (9, 0), (10, 0), (11, 0), (12, 0), (13, 0), (14, 0), (15, 0), (16, 0), (17, 0), (18, 0), (19, 0)]]"
  by code_simp

lemma tracedRegions_strongLine21:
  "tracedRegions strongLine21 = [[(0, 0), (1, 0), (2, 0), (3, 0), (4, 0), (5, 0), (6, 0), (7, 0), (8, 0), (9, 0), (10, 0), (11, 0), (12, 0), (13, 0), (14, 0), (15, 0), (16, 0), (17, 0), (18, 0), (19, 0), (20, 0)]]"
  by code_simp

text \<open>
  C5, as stated, fails: the row of 20 strong edge pixels is traced as one region of 20 points,
  and \<open>findContours\<close> returns no contour.
\<close>

theorem findContours_drops_region_of_20:
  "tracedRegions strongLine = [[(0, 0), (1, 0), (2, 0), (3, 0), (4, 0), (5, 0), (6, 0), (7, 0), (8, 0), (9, 0), (10, 0), (11, 0), (12, 0), (13, 0), (14, 0), (15, 0), (16, 0), (17, 0), (18, 0), (19, 0)]]
   \<and> length [(0::int, 0::int), (1, 0), (2, 0), (3, 0), (4, 0), (5, 0), (6, 0), (7, 0), (8, 0), (9, 0), (10, 0), (11, 0), (12, 0), (13, 0), (14, 0), (15, 0), (16, 0), (17, 0), (18, 0), (19, 0)] = 20
   \<and> findContours strongLine = []"
  by (simp add: findContours_filter tracedRegions_strongLine)

text \<open>
  C5, amended. For every edge image, \<open>findContours\<close> returns the traced regions of more
  than 20 points, in the order of tracing: every traced region of at least 21 points is
  included, and every traced region of at most 20 points is excluded.
\<close>

theorem findContours_keeps_more_than_20:
  "findContours edgeData = filter (\<lambda>c. 20 < length c) (tracedRegions edgeData)
   \<and> (\<forall>c \<in> set (tracedRegions edgeData).
         (21 \<le> length c \<longrightarrow> c \<in> set (findContours edgeData))
       \<and> (length c \<le> 20 \<longrightarrow> c \<notin> set (findContours edgeData)))"
  by (auto simp: findContours_filter)

theorem findContours_keeps_more_than_20_witness:
  "[(0, 0), (1, 0), (2, 0), (3, 0), (4, 0), (5, 0), (6, 0), (7, 0), (8, 0), (9, 0), (10, 0), (11, 0), (12, 0), (13, 0), (14, 0), (15, 0), (16, 0), (17, 0), (18, 0), (19, 0), (20, 0)] \<in> set (tracedRegions strongLine21)
   \<and> 21 \<le> length [(0::int, 0::int), (1, 0), (2, 0), (3, 0), (4, 0), (5, 0), (6, 0), (7, 0), (8, 0), (9, 0), (10, 0), (11, 0), (12, 0), (13, 0), (14, 0), (15, 0), (16, 0), (17, 0), (18, 0), (19, 0), (20, 0)]
   \<and> [(0, 0), (1, 0), (2, 0), (3, 0), (4, 0), (5, 0), (6, 0), (7, 0), (8, 0), (9, 0), (10, 0), (11, 0), (12, 0), (13, 0), (14, 0), (15, 0), (16, 0), (17, 0), (18, 0), (19, 0), (20, 0)] \<in> set (findContours strongLine21)
   \<and> [(0, 0), (1, 0), (2, 0), (3, 0), (4, 0), (5, 0), (6, 0), (7, 0), (8, 0), (9, 0), (10, 0), (11, 0), (12, 0), (13, 0), (14, 0), (15, 0), (16, 0), (17, 0), (18, 0), (19, 0)] \<in> set (tracedRegions strongLine)
   \<and> length [(0::int, 0::int), (1, 0), (2, 0), (3, 0), (4, 0), (5, 0), (6, 0), (7, 0), (8, 0), (9, 0), (10, 0), (11, 0), (12, 0), (13, 0), (14, 0), (15, 0), (16, 0), (17, 0), (18, 0), (19, 0)] \<le> 20
   \<and> [(0, 0), (1, 0), (2, 0), (3, 0), (4, 0), (5, 0), (6, 0), (7, 0), (8, 0), (9, 0), (10, 0), (11, 0), (12, 0), (13, 0), (14, 0), (15, 0), (16, 0), (17, 0), (18, 0), (19, 0)] \<notin> set (findContours strongLine)"
  using findContours_keeps_more_than_20 [of strongLine21]
    findContours_keeps_more_than_20 [of strongLine]
  by (simp add: tracedRegions_strongLine tracedRegions_strongLine21)

section \<open>Properties of the analysis of a frame\<close>

lemma compareWithReference_without_features:
  "\<exists>r. compareWithReference st None rnd1 rnd2 = Inr r \<and> message r \<noteq> AnalysisError"
  by (auto simp: compareWithReference_def Let_def split: option.split)

lemma compareWithReference_with_keyPointRect:
  assumes "keyPointRect st = Some k"
  shows "\<exists>r. compareWithReference st f rnd1 rnd2 = Inr r \<and> message r \<noteq> AnalysisError"
proof (cases f)
  case None
  then show ?thesis by (simp add: compareWithReference_without_features)
next
  case (Some bf)
  then show ?thesis
    using assms by (auto simp: compareWithReference_def Let_def split: option.split)
qed

lemma analyzeWithDrawingAreas_returns:
  assumes "keyPointRect st = Some k"
  shows "\<exists>r st'. analyzeWithDrawingAreas env st frame = Inr (r, st') \<and> message r \<noteq> AnalysisError"
proof (cases "extractROI frame (keyPointRect st)")
  case None
  then show ?thesis by (simp add: analyzeWithDrawingAreas_def)
next
  case (Some roi)
  obtain r where "compareWithReference st
      (an_features (analyzeROI (config st) (settings st) (analysisTime env) roi))
      (random1 env) (random2 env) = Inr r" "message r \<noteq> AnalysisError"
    using compareWithReference_with_keyPointRect [OF assms] by blast
  then show ?thesis using Some by (simp add: analyzeWithDrawingAreas_def Let_def)
qed

lemma analyzeLegacyMode_returns:
  "\<exists>r st'. analyzeLegacyMode env st frame = Inr (r, st') \<and> message r \<noteq> AnalysisError"
proof (cases "length (detectBoxes (config st) (settings st) frame) = 0")
  case True
  then show ?thesis by (simp add: analyzeLegacyMode_def Let_def)
next
  case False
  obtain r where "compareWithReference st None (random1 env) (random2 env) = Inr r"
    "message r \<noteq> AnalysisError"
    using compareWithReference_without_features by blast
  then show ?thesis using False by (simp add: analyzeLegacyMode_def Let_def)
qed

lemma analyzeFrameBody_returns:
  "\<exists>r st'. analyzeFrameBody env st frame newSettings = Inr (r, st') \<and> message r \<noteq> AnalysisError"
proof (cases "keyPointRect (updateSettings newSettings st)")
  case None
  then show ?thesis
    using analyzeLegacyMode_returns [of env "updateSettings newSettings st" frame]
    by (simp add: analyzeFrameBody_def Let_def)
next
  case (Some k)
  then show ?thesis
    using analyzeWithDrawingAreas_returns [OF Some, of env frame]
    by (simp add: analyzeFrameBody_def Let_def)
qed

text \<open>
  C7, as stated, fails: on a frame with a malformed pixel buffer the extraction of the region
  throws, or in legacy mode the grayscale conversion throws; the failure is caught inside the
  stage and \<open>analyzeFrame\<close> returns a result with \<open>hasAlert = false\<close>.
\<close>

theorem analyzeFrame_swallows_stage_failure:
  "extractROIBody brokenFrame (Some \<lparr>rect_x = 40, rect_y = 60, rect_width = 200, rect_height = 200\<rparr>)
     = Inl TypeError
   \<and> analyzeFrame quietEnv referenceEngine (Some brokenFrame) noNewSettings =
       (\<lparr>hasAlert = False, message = CannotExtractArea,
         box = Some \<lparr>rect_x = 40, rect_y = 60, rect_width = 200, rect_height = 200\<rparr>,
         confidence = 0, details = None\<rparr>, referenceEngine)
   \<and> convertToGrayscale (fd_imageData brokenFrame) = Inl InvalidStateError
   \<and> analyzeFrame quietEnv legacyEngine (Some brokenFrame) noNewSettings =
       (\<lparr>hasAlert = False, message = NoBoxFound, box = None, confidence = 0, details = None\<rparr>,
        legacyEngine)"
proof -
  have ex: "extractROIBody brokenFrame (Some \<lparr>rect_x = 40, rect_y = 60, rect_width = 200, rect_height = 200\<rparr>)
     = Inl TypeError"
    by (simp add: extractROIBody_def brokenFrame_def genuineImageData_def Let_def)
  have gr: "convertToGrayscale (fd_imageData brokenFrame) = Inl InvalidStateError"
    by (simp add: convertToGrayscale_def brokenFrame_def newImageData_def Let_def)
  have u1: "updateSettings noNewSettings referenceEngine = referenceEngine"
    by (simp add: updateSettings_def mergeSettings_def noNewSettings_def referenceEngine_fields)
  have u2: "updateSettings noNewSettings (legacyEngine :: Rectangle Engine) = legacyEngine"
    by (simp add: updateSettings_def mergeSettings_def noNewSettings_def legacyEngine_fields)
  have i1: "isInitialized referenceEngine" "isInitialized (legacyEngine :: Rectangle Engine)"
    "keyPointRect (legacyEngine :: Rectangle Engine) = None"
    by (simp_all add: referenceEngine_def legacyEngine_def setReferenceAreas_def
        setReferenceImage_def newEngine_def Let_def)
  have a1: "analyzeFrame quietEnv referenceEngine (Some brokenFrame) noNewSettings =
       (\<lparr>hasAlert = False, message = CannotExtractArea,
         box = Some \<lparr>rect_x = 40, rect_y = 60, rect_width = 200, rect_height = 200\<rparr>,
         confidence = 0, details = None\<rparr>, referenceEngine)"
    using ex i1 u1
    by (simp add: analyzeFrame_def analyzeFrameBody_def analyzeWithDrawingAreas_def
        extractROI_def referenceEngine_fields Let_def)
  have a2: "analyzeFrame quietEnv legacyEngine (Some brokenFrame) noNewSettings =
       (\<lparr>hasAlert = False, message = NoBoxFound, box = None, confidence = 0, details = None\<rparr>,
        legacyEngine)"
    using gr i1 u2
    by (simp add: analyzeFrame_def analyzeFrameBody_def analyzeLegacyMode_def
        detectBoxes_def detectBoxesBody_def Let_def)
  from ex a1 gr a2 show ?thesis by (intro conjI)
qed

text \<open>
  C7, amended. \<open>analyzeFrame\<close> never propagates an internal exception: for every input it
  returns a detection result, and no failure of a pipeline stage reaches its handler, so the
  result is never the alert with the generic message. A failure inside a stage is caught
  there and gives a result without alert: when the extraction of the region throws, the
  result has \<open>hasAlert = false\<close>, the message that the area cannot be extracted, and
  confidence 0; when the legacy box detection throws, the result has \<open>hasAlert = false\<close>, the
  message that no box was found, and confidence 0.
\<close>

theorem analyzeFrame_inner_failure_no_alert:
  "message (fst (analyzeFrame env st frameData newSettings)) \<noteq> AnalysisError
   \<and> (\<exists>r st'. analyzeFrameBody env st frame newSettings = Inr (r, st'))
   \<and> (isInitialized st \<and> keyPointRect st = Some k \<and> extractROIBody frame (Some k) = Inl e \<longrightarrow>
        analyzeFrame env st (Some frame) newSettings =
          (\<lparr>hasAlert = False, message = CannotExtractArea, box = Some k, confidence = 0,
            details = None\<rparr>, updateSettings newSettings st))
   \<and> (isInitialized st \<and> keyPointRect st = None
        \<and> detectBoxesBody (config st) (mergeSettings (settings st) newSettings) frame = Inl e' \<longrightarrow>
        analyzeFrame env st (Some frame) newSettings =
          (\<lparr>hasAlert = False, message = NoBoxFound, box = None, confidence = 0,
            details = None\<rparr>, updateSettings newSettings st))"
proof (intro conjI impI)
  show "message (fst (analyzeFrame env st frameData newSettings)) \<noteq> AnalysisError"
  proof (cases "isInitialized st")
    case False
    then show ?thesis by (simp add: analyzeFrame_def)
  next
    case True
    show ?thesis
    proof (cases frameData)
      case None
      then show ?thesis using True by (simp add: analyzeFrame_def)
    next
      case (Some f)
      obtain r st' where "analyzeFrameBody env st f newSettings = Inr (r, st')"
        "message r \<noteq> AnalysisError"
        using analyzeFrameBody_returns by blast
      then show ?thesis using True Some by (simp add: analyzeFrame_def)
    qed
  qed
next
  show "\<exists>r st'. analyzeFrameBody env st frame newSettings = Inr (r, st')"
    using analyzeFrameBody_returns [of env st frame newSettings] by blast
next
  assume a: "isInitialized st \<and> keyPointRect st = Some k \<and> extractROIBody frame (Some k) = Inl e"
  then show "analyzeFrame env st (Some frame) newSettings =
          (\<lparr>hasAlert = False, message = CannotExtractArea, box = Some k, confidence = 0,
            details = None\<rparr>, updateSettings newSettings st)"
    by (simp add: analyzeFrame_def analyzeFrameBody_def analyzeWithDrawingAreas_def
        extractROI_def updateSettings_def Let_def)
next
  assume a: "isInitialized st \<and> keyPointRect st = None
        \<and> detectBoxesBody (config st) (mergeSettings (settings st) newSettings) frame = Inl e'"
  then show "analyzeFrame env st (Some frame) newSettings =
          (\<lparr>hasAlert = False, message = NoBoxFound, box = None, confidence = 0,
            details = None\<rparr>, updateSettings newSettings st)"
    by (simp add: analyzeFrame_def analyzeFrameBody_def analyzeLegacyMode_def
        detectBoxes_def updateSettings_def Let_def)
qed

theorem analyzeFrame_inner_failure_no_alert_witness:
  "isInitialized referenceEngine
   \<and> keyPointRect referenceEngine = Some \<lparr>rect_x = 40, rect_y = 60, rect_width = 200, rect_height = 200\<rparr>
   \<and> extractROIBody brokenFrame (Some \<lparr>rect_x = 40, rect_y = 60, rect_width = 200, rect_height = 200\<rparr>) = Inl TypeError
   \<and> analyzeFrame quietEnv referenceEngine (Some brokenFrame) noNewSettings =
       (\<lparr>hasAlert = False, message = CannotExtractArea, box = Some \<lparr>rect_x = 40, rect_y = 60, rect_width = 200, rect_height = 200\<rparr>,
         confidence = 0, details = None\<rparr>, updateSettings noNewSettings referenceEngine)
   \<and> isInitialized (legacyEngine :: Rectangle Engine)
   \<and> keyPointRect (legacyEngine :: Rectangle Engine) = None
   \<and> detectBoxesBody (config (legacyEngine :: Rectangle Engine))
        (mergeSettings (settings (legacyEngine :: Rectangle Engine)) noNewSettings) brokenFrame
       = Inl InvalidStateError
   \<and> analyzeFrame quietEnv legacyEngine (Some brokenFrame) noNewSettings =
       (\<lparr>hasAlert = False, message = NoBoxFound, box = None, confidence = 0, details = None\<rparr>,
        updateSettings noNewSettings legacyEngine)"
proof -
  have ex: "extractROIBody brokenFrame (Some \<lparr>rect_x = 40, rect_y = 60, rect_width = 200, rect_height = 200\<rparr>) = Inl TypeError"
    by (simp add: extractROIBody_def brokenFrame_def genuineImageData_def Let_def)
  have db: "detectBoxesBody (config (legacyEngine :: Rectangle Engine))
        (mergeSettings (settings (legacyEngine :: Rectangle Engine)) noNewSettings) brokenFrame
       = Inl InvalidStateError"
    by (simp add: detectBoxesBody_def convertToGrayscale_def brokenFrame_def newImageData_def Let_def)
  have i1: "isInitialized referenceEngine" "keyPointRect referenceEngine = Some \<lparr>rect_x = 40, rect_y = 60, rect_width = 200, rect_height = 200\<rparr>"
    by (simp_all add: referenceEngine_def setReferenceAreas_def newEngine_def Let_def)
  have i2: "isInitialized (legacyEngine :: Rectangle Engine)"
    "keyPointRect (legacyEngine :: Rectangle Engine) = None"
    by (simp_all add: legacyEngine_def setReferenceImage_def newEngine_def Let_def)
  show ?thesis
    using analyzeFrame_inner_failure_no_alert
        [of quietEnv referenceEngine "Some brokenFrame" noNewSettings brokenFrame
            "\<lparr>rect_x = 40, rect_y = 60, rect_width = 200, rect_height = 200\<rparr>" TypeError InvalidStateError]
      analyzeFrame_inner_failure_no_alert
        [of quietEnv legacyEngine "Some brokenFrame" noNewSettings brokenFrame
            "\<lparr>rect_x = 40, rect_y = 60, rect_width = 200, rect_height = 200\<rparr>" TypeError InvalidStateError]
      ex db i1 i2
    by simp
qed

end
